theory Spec2Isabelle
  imports Main "HOL-Library.Sublist"
begin

section \<open>JavaScript strings\<close>

text \<open>
  A JavaScript string is a sequence of UTF-16 code units. A code unit is modelled as a
  natural number (below 65536 in every real string; no function below depends on the
  bound), so that the non-ASCII text of the source (the Chinese error messages, the
  Unicode white space that \<^verbatim>\<open>trim\<close> removes) is representable. \<open>S\<close> turns an ASCII literal
  into such a string.
\<close>

type_synonym jsstring = "nat list"

definition S :: "string \<Rightarrow> jsstring" where
  "S s = map of_char s"

text \<open>\<^verbatim>\<open>s.startsWith(p)\<close>\<close>

definition startsWith :: "jsstring \<Rightarrow> jsstring \<Rightarrow> bool" where
  "startsWith s p = prefix p s"

text \<open>\<^verbatim>\<open>s.includes(sub)\<close>: \<open>sub\<close> occurs in \<open>s\<close> as a contiguous block.\<close>

fun js_includes :: "jsstring \<Rightarrow> jsstring \<Rightarrow> bool" where
  "js_includes [] sub = (sub = [])"
| "js_includes (c # cs) sub = (prefix sub (c # cs) \<or> js_includes cs sub)"

text \<open>\<^verbatim>\<open>s.substring(n)\<close> for a literal \<open>n \<ge> 0\<close>.\<close>

definition substring :: "jsstring \<Rightarrow> nat \<Rightarrow> jsstring" where
  "substring s n = drop n s"

text \<open>
  \<^verbatim>\<open>s.trim()\<close> removes ECMAScript WhiteSpace and LineTerminator code units from both ends:
  TAB, LF, VT, FF, CR, SP, NBSP, U+1680, U+2000..U+200A, U+2028, U+2029, U+202F, U+205F,
  U+3000 and U+FEFF.
\<close>

definition is_js_space :: "nat \<Rightarrow> bool" where
  "is_js_space c =
     ((9 \<le> c \<and> c \<le> 13) \<or> c = 32 \<or> c = 160 \<or> c = 5760 \<or> (8192 \<le> c \<and> c \<le> 8202)
      \<or> c = 8232 \<or> c = 8233 \<or> c = 8239 \<or> c = 8287 \<or> c = 12288 \<or> c = 65279)"

definition trim :: "jsstring \<Rightarrow> jsstring" where
  "trim s = rev (dropWhile is_js_space (rev (dropWhile is_js_space s)))"

text \<open>\<^verbatim>\<open>s.split(sep)\<close> for a separator of one code unit: the fields between separators.\<close>

fun split :: "jsstring \<Rightarrow> nat \<Rightarrow> jsstring list" where
  "split [] sep = [[]]"
| "split (c # cs) sep =
     (if c = sep then [] # split cs sep
      else (case split cs sep of [] \<Rightarrow> [[c]] | f # fs \<Rightarrow> (c # f) # fs))"

text \<open>\<^verbatim>\<open>xs[i]\<close> on an array: \<open>undefined\<close> (here \<open>None\<close>) out of range.\<close>

definition js_nth :: "'a list \<Rightarrow> nat \<Rightarrow> 'a option" where
  "js_nth xs i = (if i < length xs then Some (xs ! i) else None)"

section \<open>JSON values and \<^verbatim>\<open>JSON.parse\<close>\<close>

text \<open>
  The values \<^verbatim>\<open>JSON.parse\<close> can return. A number keeps its literal text: its IEEE-754 value
  is never computed here (see \<open>number_ops\<close> below). An object keeps its members in source
  order, duplicates included; a property read takes the last one, as \<^verbatim>\<open>JSON.parse\<close> keeps
  the last of two equal keys.
\<close>

datatype json =
    JNull
  | JBool bool
  | JNumber jsstring
  | JString jsstring
  | JArray "json list"
  | JObject "(jsstring \<times> json) list"

datatype token =
    TLBrace | TRBrace | TLBrack | TRBrack | TColon | TComma
  | TStr jsstring | TNum jsstring | TTrue | TFalse | TNull

definition is_digit :: "nat \<Rightarrow> bool" where
  "is_digit c = (48 \<le> c \<and> c \<le> 57)"

text \<open>JSON white space: space, TAB, LF, CR.\<close>

definition is_json_ws :: "nat \<Rightarrow> bool" where
  "is_json_ws c = (c = 32 \<or> c = 9 \<or> c = 10 \<or> c = 13)"

definition hex_val :: "nat \<Rightarrow> nat option" where
  "hex_val c =
     (if 48 \<le> c \<and> c \<le> 57 then Some (c - 48)
      else if 65 \<le> c \<and> c \<le> 70 then Some (c - 55)
      else if 97 \<le> c \<and> c \<le> 102 then Some (c - 87)
      else None)"

text \<open>The one-letter escapes: \<^verbatim>\<open>\" \\ \/ \b \f \n \r \t\<close>.\<close>

definition escape_char :: "nat \<Rightarrow> nat option" where
  "escape_char e =
     (if e = 34 then Some 34 else if e = 92 then Some 92 else if e = 47 then Some 47
      else if e = 98 then Some 8 else if e = 102 then Some 12 else if e = 110 then Some 10
      else if e = 114 then Some 13 else if e = 116 then Some 9 else None)"

text \<open>
  The body of a string literal, after its opening quote: the decoded string and the text
  after the closing quote. A raw control character (below U+0020), an unknown escape and
  a missing closing quote are syntax errors.
\<close>

definition hex4 :: "jsstring \<Rightarrow> (nat \<times> jsstring) option" where
  "hex4 cs =
     (case cs of
        a # b # c # d # r \<Rightarrow>
          (case (hex_val a, hex_val b, hex_val c, hex_val d) of
             (Some h3, Some h2, Some h1, Some h0) \<Rightarrow>
               Some (h3 * 4096 + h2 * 256 + h1 * 16 + h0, r)
           | _ \<Rightarrow> None)
      | _ \<Rightarrow> None)"

text \<open>An escape sequence, after its backslash: the code unit it stands for, and the rest.\<close>

definition lex_escape :: "jsstring \<Rightarrow> (nat \<times> jsstring) option" where
  "lex_escape cs =
     (case cs of
        [] \<Rightarrow> None
      | e # r \<Rightarrow>
          if e = 117 then hex4 r
          else (case escape_char e of None \<Rightarrow> None | Some x \<Rightarrow> Some (x, r)))"

lemma hex4_shorter: "hex4 cs = Some (x, rest) \<Longrightarrow> length rest < length cs"
  by (auto simp: hex4_def split: list.splits option.splits)

lemma lex_escape_shorter: "lex_escape cs = Some (x, rest) \<Longrightarrow> length rest < length cs"
  by (auto simp: lex_escape_def split: list.splits if_splits option.splits dest: hex4_shorter)

function lex_string :: "jsstring \<Rightarrow> jsstring \<Rightarrow> (jsstring \<times> jsstring) option" where
  "lex_string acc [] = None"
| "lex_string acc (c # cs) =
     (if c = 34 then Some (rev acc, cs)
      else if c = 92 then
        (case lex_escape cs of
           None \<Rightarrow> None
         | Some (x, rest) \<Rightarrow> lex_string (x # acc) rest)
      else if c < 32 then None
      else lex_string (c # acc) cs)"
  by pat_completeness auto
termination
  by (relation "measure (\<lambda>(acc, cs). length cs)")
    (auto dest: lex_escape_shorter)

text \<open>
  A number literal: \<^verbatim>\<open>-? (0 | [1-9][0-9]*) (. [0-9]+)? ([eE] [+-]? [0-9]+)?\<close>. Each part
  returns the text it read and the rest.
\<close>

definition lex_digits :: "jsstring \<Rightarrow> (jsstring \<times> jsstring) option" where
  "lex_digits cs =
     (if takeWhile is_digit cs = [] then None
      else Some (takeWhile is_digit cs, dropWhile is_digit cs))"

definition lex_int :: "jsstring \<Rightarrow> (jsstring \<times> jsstring) option" where
  "lex_int cs =
     (case cs of
        [] \<Rightarrow> None
      | d # r \<Rightarrow>
          if d = 48 then Some ([48], r)
          else if 49 \<le> d \<and> d \<le> 57 then Some (d # takeWhile is_digit r, dropWhile is_digit r)
          else None)"

definition lex_frac :: "jsstring \<Rightarrow> (jsstring \<times> jsstring) option" where
  "lex_frac cs =
     (case cs of
        [] \<Rightarrow> Some ([], [])
      | c # r \<Rightarrow>
          if c = 46 then
            (case lex_digits r of None \<Rightarrow> None | Some (ds, r') \<Rightarrow> Some (46 # ds, r'))
          else Some ([], cs))"

definition lex_sign :: "jsstring \<Rightarrow> jsstring \<times> jsstring" where
  "lex_sign cs =
     (case cs of
        [] \<Rightarrow> ([], [])
      | s # r \<Rightarrow> if s = 43 \<or> s = 45 then ([s], r) else ([], cs))"

definition lex_exp :: "jsstring \<Rightarrow> (jsstring \<times> jsstring) option" where
  "lex_exp cs =
     (case cs of
        [] \<Rightarrow> Some ([], [])
      | c # r \<Rightarrow>
          if c = 101 \<or> c = 69 then
            (case lex_digits (snd (lex_sign r)) of
               None \<Rightarrow> None
             | Some (ds, r') \<Rightarrow> Some (c # fst (lex_sign r) @ ds, r'))
          else Some ([], cs))"

definition lex_minus :: "jsstring \<Rightarrow> jsstring \<times> jsstring" where
  "lex_minus cs =
     (case cs of
        [] \<Rightarrow> ([], [])
      | c # r \<Rightarrow> if c = 45 then ([45], r) else ([], cs))"

definition lex_number :: "jsstring \<Rightarrow> (jsstring \<times> jsstring) option" where
  "lex_number cs =
     (case lex_int (snd (lex_minus cs)) of
        None \<Rightarrow> None
      | Some (ip, r1) \<Rightarrow>
          (case lex_frac r1 of
             None \<Rightarrow> None
           | Some (fp, r2) \<Rightarrow>
               (case lex_exp r2 of
                  None \<Rightarrow> None
                | Some (ep, r3) \<Rightarrow> Some (fst (lex_minus cs) @ ip @ fp @ ep, r3))))"

lemma lex_string_shorter:
  "lex_string acc cs = Some (s, rest) \<Longrightarrow> length rest < length cs"
proof (induction acc cs rule: lex_string.induct)
  case (1 acc)
  then show ?case by simp
next
  case (2 acc c cs)
  show ?case
  proof (cases "c = 34")
    case True
    with 2(3) show ?thesis by simp
  next
    case n34: False
    show ?thesis
    proof (cases "c = 92")
      case False
      with n34 2(2) 2(3) show ?thesis by (auto split: if_splits)
    next
      case True
      with n34 2(3) obtain x r where
        e: "lex_escape cs = Some (x, r)" and l: "lex_string (x # acc) r = Some (s, rest)"
        by (auto split: option.splits)
      from 2(1) [OF n34 True e refl l] have "length rest < length r" .
      also have "\<dots> < length cs" using e by (rule lex_escape_shorter)
      finally show ?thesis by simp
    qed
  qed
qed

lemma lex_digits_shorter:
  "lex_digits cs = Some (ds, rest) \<Longrightarrow> length rest \<le> length cs"
  by (auto simp: lex_digits_def length_dropWhile_le split: if_splits)

lemma lex_int_shorter:
  "lex_int cs = Some (ds, rest) \<Longrightarrow> length rest < length cs"
  by (auto simp: lex_int_def less_Suc_eq_le length_dropWhile_le split: list.splits if_splits)

lemma lex_frac_shorter:
  "lex_frac cs = Some (ds, rest) \<Longrightarrow> length rest \<le> length cs"
  by (auto simp: lex_frac_def split: list.splits if_splits option.splits
      dest!: lex_digits_shorter)

lemma lex_sign_shorter: "length (snd (lex_sign cs)) \<le> length cs"
  by (simp add: lex_sign_def split: list.splits)

lemma lex_minus_shorter: "length (snd (lex_minus cs)) \<le> length cs"
  by (simp add: lex_minus_def split: list.splits)

lemma lex_exp_shorter:
  assumes "lex_exp cs = Some (ds, rest)"
  shows "length rest \<le> length cs"
proof (cases cs)
  case Nil
  with assms show ?thesis by (simp add: lex_exp_def)
next
  case (Cons c r)
  show ?thesis
  proof (cases "c = 101 \<or> c = 69")
    case True
    with assms Cons obtain ds' where "lex_digits (snd (lex_sign r)) = Some (ds', rest)"
      by (auto simp: lex_exp_def split: option.splits)
    then have "length rest \<le> length (snd (lex_sign r))"
      by (rule lex_digits_shorter)
    also have "\<dots> \<le> length r"
      by (rule lex_sign_shorter)
    finally show ?thesis using Cons by simp
  next
    case False
    with assms Cons show ?thesis by (auto simp: lex_exp_def)
  qed
qed

lemma lex_number_shorter:
  assumes "lex_number cs = Some (l, rest)"
  shows "length rest < length cs"
proof -
  from assms obtain ip r1 fp r2 ep where
    i: "lex_int (snd (lex_minus cs)) = Some (ip, r1)" and
    f: "lex_frac r1 = Some (fp, r2)" and
    e: "lex_exp r2 = Some (ep, rest)"
    by (auto simp: lex_number_def split: option.splits)
  have "length rest \<le> length r2" using e by (rule lex_exp_shorter)
  also have "\<dots> \<le> length r1" using f by (rule lex_frac_shorter)
  also have "\<dots> < length (snd (lex_minus cs))" using i by (rule lex_int_shorter)
  also have "\<dots> \<le> length cs" by (rule lex_minus_shorter)
  finally show ?thesis .
qed

text \<open>The lexer: the tokens of a JSON text, or \<open>None\<close> on a lexical error.\<close>

function lex :: "jsstring \<Rightarrow> token list option" where
  "lex [] = Some []"
| "lex (c # cs) =
     (if is_json_ws c then lex cs
      else if c = 123 then map_option (Cons TLBrace) (lex cs)
      else if c = 125 then map_option (Cons TRBrace) (lex cs)
      else if c = 91 then map_option (Cons TLBrack) (lex cs)
      else if c = 93 then map_option (Cons TRBrack) (lex cs)
      else if c = 58 then map_option (Cons TColon) (lex cs)
      else if c = 44 then map_option (Cons TComma) (lex cs)
      else if c = 34 then
        (case lex_string [] cs of
           None \<Rightarrow> None
         | Some (s, rest) \<Rightarrow> map_option (Cons (TStr s)) (lex rest))
      else if c = 45 \<or> is_digit c then
        (case lex_number (c # cs) of
           None \<Rightarrow> None
         | Some (n, rest) \<Rightarrow> map_option (Cons (TNum n)) (lex rest))
      else if prefix [116, 114, 117, 101] (c # cs) then
        map_option (Cons TTrue) (lex (drop 3 cs))
      else if prefix [102, 97, 108, 115, 101] (c # cs) then
        map_option (Cons TFalse) (lex (drop 4 cs))
      else if prefix [110, 117, 108, 108] (c # cs) then
        map_option (Cons TNull) (lex (drop 3 cs))
      else None)"
  by pat_completeness auto
termination
  by (relation "measure length")
    (auto dest: lex_string_shorter lex_number_shorter)

text \<open>
  The parser: a pushdown automaton over the tokens. A frame is a container under
  construction (members newest first); the mode says what may come next.
\<close>

datatype frame =
    FArr "json list"
  | FObj "(jsstring \<times> json) list" "jsstring option"

datatype pmode = PValue | PValueOrClose | PKeyOrClose | PKey | PColon | PAfter | PDone json

text \<open>A finished value goes into the enclosing container, or is the result.\<close>

fun push_value :: "json \<Rightarrow> frame list \<Rightarrow> (frame list \<times> pmode) option" where
  "push_value v [] = Some ([], PDone v)"
| "push_value v (FArr es # st) = Some (FArr (v # es) # st, PAfter)"
| "push_value v (FObj ms (Some k) # st) = Some (FObj ((k, v) # ms) None # st, PAfter)"
| "push_value v (FObj ms None # st) = None"

fun start_value :: "frame list \<Rightarrow> token \<Rightarrow> (frame list \<times> pmode) option" where
  "start_value st TLBrack = Some (FArr [] # st, PValueOrClose)"
| "start_value st TLBrace = Some (FObj [] None # st, PKeyOrClose)"
| "start_value st (TStr s) = push_value (JString s) st"
| "start_value st (TNum n) = push_value (JNumber n) st"
| "start_value st TTrue = push_value (JBool True) st"
| "start_value st TFalse = push_value (JBool False) st"
| "start_value st TNull = push_value JNull st"
| "start_value st _ = None"

fun close_array :: "frame list \<Rightarrow> (frame list \<times> pmode) option" where
  "close_array (FArr es # st) = push_value (JArray (rev es)) st"
| "close_array _ = None"

fun close_object :: "frame list \<Rightarrow> (frame list \<times> pmode) option" where
  "close_object (FObj ms None # st) = push_value (JObject (rev ms)) st"
| "close_object _ = None"

fun set_key :: "frame list \<Rightarrow> jsstring \<Rightarrow> (frame list \<times> pmode) option" where
  "set_key (FObj ms None # st) k = Some (FObj ms (Some k) # st, PColon)"
| "set_key _ k = None"

fun after_comma :: "frame list \<Rightarrow> (frame list \<times> pmode) option" where
  "after_comma (FArr es # st) = Some (FArr es # st, PValue)"
| "after_comma (FObj ms None # st) = Some (FObj ms None # st, PKey)"
| "after_comma _ = None"

fun pstep :: "frame list \<times> pmode \<Rightarrow> token \<Rightarrow> (frame list \<times> pmode) option" where
  "pstep (st, PValue) t = start_value st t"
| "pstep (st, PValueOrClose) t = (if t = TRBrack then close_array st else start_value st t)"
| "pstep (st, PKeyOrClose) t =
     (case t of TStr k \<Rightarrow> set_key st k | TRBrace \<Rightarrow> close_object st | _ \<Rightarrow> None)"
| "pstep (st, PKey) t = (case t of TStr k \<Rightarrow> set_key st k | _ \<Rightarrow> None)"
| "pstep (st, PColon) t = (if t = TColon then Some (st, PValue) else None)"
| "pstep (st, PAfter) t =
     (case t of
        TComma \<Rightarrow> after_comma st
      | TRBrack \<Rightarrow> close_array st
      | TRBrace \<Rightarrow> close_object st
      | _ \<Rightarrow> None)"
| "pstep (st, PDone v) t = None"

fun parse_tokens :: "frame list \<times> pmode \<Rightarrow> token list \<Rightarrow> json option" where
  "parse_tokens (st, m) [] = (case (st, m) of ([], PDone v) \<Rightarrow> Some v | _ \<Rightarrow> None)"
| "parse_tokens (st, m) (t # ts) =
     (case pstep (st, m) t of None \<Rightarrow> None | Some s' \<Rightarrow> parse_tokens s' ts)"

text \<open>\<^verbatim>\<open>JSON.parse(text)\<close>: the value, or \<open>None\<close> where JavaScript throws a SyntaxError.\<close>

definition JSON_parse :: "jsstring \<Rightarrow> json option" where
  "JSON_parse text = (case lex text of None \<Rightarrow> None | Some ts \<Rightarrow> parse_tokens ([], PValue) ts)"

section \<open>JavaScript values\<close>

text \<open>
  A value read from parsed JSON is a \<open>json\<close> or \<^verbatim>\<open>undefined\<close>, here \<open>json option\<close> with
  \<open>None\<close> for \<^verbatim>\<open>undefined\<close>.

  The double a number literal denotes and \<^verbatim>\<open>Number.prototype.toString\<close> belong to the
  runtime; they are parameters: whether a literal denotes zero (the only falsy number JSON
  can produce) and the text of the number.
\<close>

record number_ops =
  number_is_zero :: "jsstring \<Rightarrow> bool"
  number_to_string :: "jsstring \<Rightarrow> jsstring"

fun truthy :: "number_ops \<Rightarrow> json option \<Rightarrow> bool" where
  "truthy N None = False"
| "truthy N (Some JNull) = False"
| "truthy N (Some (JBool b)) = b"
| "truthy N (Some (JNumber l)) = (\<not> number_is_zero N l)"
| "truthy N (Some (JString s)) = (s \<noteq> [])"
| "truthy N (Some (JArray xs)) = True"
| "truthy N (Some (JObject ms)) = True"

text \<open>An exception, with its \<^verbatim>\<open>message\<close>.\<close>

datatype js_error = TypeError jsstring | Thrown jsstring

fun message :: "js_error \<Rightarrow> jsstring" where
  "message (TypeError m) = m"
| "message (Thrown m) = m"

text \<open>
  The property keys the handlers read. None of the names is defined on a prototype, so a
  read finds an own property or \<^verbatim>\<open>undefined\<close>; \<^verbatim>\<open>v[0]\<close> is the key \<^verbatim>\<open>"0"\<close>, which an array and a
  string also answer.
\<close>

datatype key = Choices | Delta | Content | Model | Messages | Stream | Index0

fun key_name :: "key \<Rightarrow> jsstring" where
  "key_name Choices = S ''choices''"
| "key_name Delta = S ''delta''"
| "key_name Content = S ''content''"
| "key_name Model = S ''model''"
| "key_name Messages = S ''messages''"
| "key_name Stream = S ''stream''"
| "key_name Index0 = S ''0''"

text \<open>The TypeError of V8 for a property read on \<^verbatim>\<open>undefined\<close> or \<^verbatim>\<open>null\<close>.\<close>

definition cannot_read :: "jsstring \<Rightarrow> key \<Rightarrow> js_error" where
  "cannot_read what k =
     TypeError (S ''Cannot read properties of '' @ what @ S '' (reading '' @ [39]
                @ key_name k @ [39] @ S '')'')"

fun get_prop :: "json option \<Rightarrow> key \<Rightarrow> js_error + json option" where
  "get_prop None k = Inl (cannot_read (S ''undefined'') k)"
| "get_prop (Some JNull) k = Inl (cannot_read (S ''null'') k)"
| "get_prop (Some (JObject ms)) k = Inr (map_of (rev ms) (key_name k))"
| "get_prop (Some (JArray xs)) k = Inr (if k = Index0 then js_nth xs 0 else None)"
| "get_prop (Some (JString s)) k =
     Inr (if k = Index0 then map_option (\<lambda>c. JString [c]) (js_nth s 0) else None)"
| "get_prop (Some (JNumber l)) k = Inr None"
| "get_prop (Some (JBool b)) k = Inr None"

text \<open>Fields joined with a separator.\<close>

fun join_with :: "jsstring \<Rightarrow> jsstring list \<Rightarrow> jsstring" where
  "join_with sep [] = []"
| "join_with sep [x] = x"
| "join_with sep (x # y # ys) = x @ sep @ join_with sep (y # ys)"

text \<open>The results of a list of steps, or the first exception thrown.\<close>

fun all_or_error :: "(js_error + 'a) list \<Rightarrow> js_error + 'a list" where
  "all_or_error [] = Inr []"
| "all_or_error (Inl e # rs) = Inl e"
| "all_or_error (Inr x # rs) =
     (case all_or_error rs of Inl e \<Rightarrow> Inl e | Inr xs \<Rightarrow> Inr (x # xs))"

text \<open>
  \<^verbatim>\<open>String(v)\<close>. An array is its elements joined with a comma, \<^verbatim>\<open>null\<close> elements as the
  empty string. A parsed object is \<^verbatim>\<open>[object Object]\<close> unless it has a property \<^verbatim>\<open>toString\<close> of
  its own: that property is never a function, \<^verbatim>\<open>Object.prototype.valueOf\<close> returns the
  object itself, and the conversion throws a TypeError.
\<close>

fun ToString :: "number_ops \<Rightarrow> json \<Rightarrow> js_error + jsstring" where
  "ToString N JNull = Inr (S ''null'')"
| "ToString N (JBool b) = Inr (if b then S ''true'' else S ''false'')"
| "ToString N (JNumber l) = Inr (number_to_string N l)"
| "ToString N (JString s) = Inr s"
| "ToString N (JArray xs) =
     (case all_or_error (map (\<lambda>x. if x = JNull then Inr [] else ToString N x) xs) of
        Inl e \<Rightarrow> Inl e
      | Inr parts \<Rightarrow> Inr (join_with (S '','') parts))"
| "ToString N (JObject ms) =
     (if S ''toString'' \<in> fst ` set ms
      then Inl (TypeError (S ''Cannot convert object to primitive value''))
      else Inr (S ''[object Object]''))"

text \<open>\<^verbatim>\<open>xs.join(sep)\<close>, which converts the elements from left to right.\<close>

definition Array_join :: "number_ops \<Rightarrow> json list \<Rightarrow> jsstring \<Rightarrow> js_error + jsstring" where
  "Array_join N xs sep =
     (case all_or_error (map (\<lambda>x. if x = JNull then Inr [] else ToString N x) xs) of
        Inl e \<Rightarrow> Inl e
      | Inr parts \<Rightarrow> Inr (join_with sep parts))"

text \<open>A non-negative integer as a number literal.\<close>

fun decimal :: "nat \<Rightarrow> jsstring" where
  "decimal n = (if n < 10 then [48 + n] else decimal (n div 10) @ [48 + n mod 10])"

declare decimal.simps [simp del]

section \<open>The non-streaming listeners of \<^verbatim>\<open>POST /v1/chat/completions\<close>\<close>

text \<open>
  Lines 171 and 172: the condition
  \<^verbatim>\<open>chunkData.choices && chunkData.choices[0].delta && chunkData.choices[0].delta.content\<close>
  and the value pushed when it holds. \<open>Inr None\<close>: the condition is falsy; \<open>Inl\<close>: a
  property read threw.
\<close>

definition chunk_content :: "number_ops \<Rightarrow> json \<Rightarrow> js_error + json option" where
  "chunk_content N chunkData =
     (case get_prop (Some chunkData) Choices of
        Inl e \<Rightarrow> Inl e
      | Inr choices \<Rightarrow>
          if \<not> truthy N choices then Inr None
          else
            (case get_prop choices Index0 of
               Inl e \<Rightarrow> Inl e
             | Inr first \<Rightarrow>
                 (case get_prop first Delta of
                    Inl e \<Rightarrow> Inl e
                  | Inr delta \<Rightarrow>
                      if \<not> truthy N delta then Inr None
                      else
                        (case get_prop delta Content of
                           Inl e \<Rightarrow> Inl e
                         | Inr content \<Rightarrow> if truthy N content then Inr content else Inr None))))"

text \<open>
  Lines 162 to 179, the \<^verbatim>\<open>'data'\<close> listener: the array \<^verbatim>\<open>chunks\<close> after one read chunk.
  Both the SyntaxError of \<^verbatim>\<open>JSON.parse\<close> and a TypeError of the property reads end in the
  \<^verbatim>\<open>catch\<close>, which only logs. (Logging has no effect on the response and is left out
  throughout.)
\<close>

definition on_data :: "number_ops \<Rightarrow> json list \<Rightarrow> jsstring \<Rightarrow> json list" where
  "on_data N chunks chunkStr =
     (if startsWith chunkStr (S ''data: '') \<and> \<not> js_includes chunkStr (S ''[DONE]'') then
        (let dataJson = trim (substring chunkStr 6) in
         if dataJson \<noteq> [] then
           (case JSON_parse dataJson of
              None \<Rightarrow> chunks
            | Some chunkData \<Rightarrow>
                (case chunk_content N chunkData of
                   Inl e \<Rightarrow> chunks
                 | Inr None \<Rightarrow> chunks
                 | Inr (Some content) \<Rightarrow> chunks @ [content]))
         else chunks)
      else chunks)"

text \<open>The listener run over the read chunks of a stream, in order.\<close>

definition on_all_data :: "number_ops \<Rightarrow> jsstring list \<Rightarrow> json list" where
  "on_all_data N chunkStrs = foldl (on_data N) [] chunkStrs"

text \<open>
  Lines 183 to 194, the object \<^verbatim>\<open>fullResponse\<close> of the \<^verbatim>\<open>'end'\<close> listener. \<open>uuid\<close> is
  \<^verbatim>\<open>randomUUID()\<close>, \<open>now\<close> is \<^verbatim>\<open>Date.now()\<close>, \<open>model\<close> is \<^verbatim>\<open>requestData.model\<close>, \<open>content\<close> is
  \<^verbatim>\<open>chunks.join('')\<close>; a property whose value is \<^verbatim>\<open>undefined\<close> is absent from the JSON sent.
\<close>

definition fullResponse :: "jsstring \<Rightarrow> nat \<Rightarrow> json option \<Rightarrow> jsstring \<Rightarrow> json" where
  "fullResponse uuid now model content =
     JObject
       ([(S ''id'', JString (S ''chatcmpl-'' @ uuid)),
         (S ''object'', JString (S ''chat.completion'')),
         (S ''created'', JNumber (decimal (now div 1000)))]
        @ (case model of None \<Rightarrow> [] | Some m \<Rightarrow> [(S ''model'', m)])
        @ [(S ''choices'',
            JArray
              [JObject
                 [(S ''index'', JNumber (S ''0'')),
                  (S ''message'',
                   JObject
                     [(S ''role'', JString (S ''assistant'')),
                      (S ''content'', JString content)]),
                  (S ''finish_reason'', JString (S ''stop''))]]),
           (S ''usage'',
            JObject
              [(S ''prompt_tokens'', JNull),
               (S ''completion_tokens'', JNull),
               (S ''total_tokens'', JNull)])])"

section \<open>Responses, collaborators and the request\<close>

text \<open>
  What a handler does to \<^verbatim>\<open>res\<close>: \<^verbatim>\<open>res.status(n).json(body)\<close> (\<^verbatim>\<open>res.json(body)\<close> is status
  200) with the headers set by \<^verbatim>\<open>res.setHeader\<close> before it; or \<^verbatim>\<open>stream.pipe(res)\<close>, with the
  headers, the chunks written to \<^verbatim>\<open>res\<close> and whether \<^verbatim>\<open>res\<close> was ended; or nothing.
\<close>

datatype response =
    Json nat "(jsstring \<times> jsstring) list" json
  | Piped "(jsstring \<times> jsstring) list" "jsstring list" bool
  | NoResponse

text \<open>
  The modules \<^verbatim>\<open>lightweight-client.js\<close>, \<^verbatim>\<open>CookieManager.js\<close> and \<^verbatim>\<open>ProxyPool.js\<close> are not
  part of the sources: what they return is a parameter, and each call a handler makes to
  them is recorded. \<^verbatim>\<open>proxyPool\<close> is imported and never used, so no call to it exists.
  \<open>ReqOnClose\<close> is the registration \<^verbatim>\<open>req.on('close', ...)\<close>, \<open>StreamEnd\<close> the call \<^verbatim>\<open>stream.end()\<close>
  that the registered listener would make.
\<close>

datatype call =
    GetValidCount
  | GetStatus
  | BuildNotionRequest json
  | StreamNotionResponse json
  | ReqOnClose
  | StreamEnd

text \<open>
  The readable stream that \<^verbatim>\<open>streamNotionResponse\<close> resolves to: the chunks of its \<^verbatim>\<open>'data'\<close>
  events (after \<^verbatim>\<open>toString()\<close>), then \<^verbatim>\<open>'end'\<close>, or \<^verbatim>\<open>'error'\<close>, or neither.
\<close>

datatype outcome = Ends | Fails js_error | Hangs

record upstream =
  emitted :: "jsstring list"
  outcome :: outcome

record env =
  PROXY_AUTH_TOKEN :: "jsstring option"
  INITIALIZED_SUCCESSFULLY :: bool
  getValidCount :: nat
  getStatus :: json
  buildNotionRequest :: "json \<Rightarrow> js_error + json"
  streamNotionResponse :: "json \<Rightarrow> js_error + upstream"
  randomUUID :: jsstring
  Date_now :: nat
  toISOString :: jsstring
  numbers :: number_ops

text \<open>
  A request: the \<^verbatim>\<open>Authorization\<close> header if any, the body as \<^verbatim>\<open>express.json()\<close> parsed it, and
  \<open>close_after = Some k\<close> when the client's connection closes while the stream is in flight,
  after \<open>k\<close> of its chunks.
\<close>

record request =
  authorization :: "jsstring option"
  body :: json
  close_after :: "nat option"

record result =
  response :: response
  calls :: "call list"

definition error_body :: "jsstring \<Rightarrow> jsstring \<Rightarrow> json" where
  "error_body msg ty =
     JObject [(S ''error'', JObject [(S ''message'', JString msg), (S ''type'', JString ty)])]"

section \<open>Authentication\<close>

text \<open>Line 47: \<^verbatim>\<open>process.env.PROXY_AUTH_TOKEN || "default_token"\<close>.\<close>

definition EXPECTED_TOKEN :: "jsstring option \<Rightarrow> jsstring" where
  "EXPECTED_TOKEN var =
     (case var of
        None \<Rightarrow> S ''default_token''
      | Some v \<Rightarrow> if v = [] then S ''default_token'' else v)"

text \<open>
  Lines 59 to 86, the middleware: \<open>Some r\<close> when it answers with \<open>r\<close>, \<open>None\<close> when it calls
  \<^verbatim>\<open>next()\<close>. \<^verbatim>\<open>!authHeader\<close> holds for a missing and for an empty header.
\<close>

definition authenticate :: "jsstring \<Rightarrow> jsstring option \<Rightarrow> response option" where
  "authenticate expected authHeader =
     (case authHeader of
        None \<Rightarrow>
          Some (Json 401 []
            (error_body (S ''Authentication required. Please provide a valid Bearer token.'')
               (S ''authentication_error'')))
      | Some h \<Rightarrow>
          if h = [] \<or> \<not> startsWith h (S ''Bearer '') then
            Some (Json 401 []
              (error_body (S ''Authentication required. Please provide a valid Bearer token.'')
                 (S ''authentication_error'')))
          else if js_nth (split h 32) 1 \<noteq> Some expected then
            Some (Json 401 []
              (error_body (S ''Invalid authentication credentials'')
                 (S ''authentication_error'')))
          else None)"

section \<open>\<^verbatim>\<open>POST /v1/chat/completions\<close>\<close>

definition msg_not_initialized :: jsstring where
  "msg_not_initialized =
     [31995, 32479, 26410, 25104, 21151, 21021, 22987, 21270, 12290, 35831, 26816, 26597,
      24744, 30340] @ S ''NOTION_COOKIE'' @ [26159, 21542, 26377, 25928, 12290]"

definition msg_no_cookies :: jsstring where
  "msg_no_cookies =
     [27809, 26377, 21487, 29992, 30340, 26377, 25928] @ S ''cookie''
     @ [12290, 35831, 26816, 26597, 24744, 30340] @ S ''NOTION_COOKIE'' @ [37197, 32622, 12290]"

definition msg_invalid_messages :: jsstring where
  "msg_invalid_messages =
     S ''Invalid request: '' @ [39] @ S ''messages'' @ [39]
     @ S '' field must be a non-empty array.''"

definition isArray :: "json option \<Rightarrow> bool" where
  "isArray v = (case v of Some (JArray xs) \<Rightarrow> True | _ \<Rightarrow> False)"

text \<open>
  Line 127:
  \<^verbatim>\<open>!requestData.messages || !Array.isArray(requestData.messages) || requestData.messages.length === 0\<close>
\<close>

definition invalid_messages :: "number_ops \<Rightarrow> json option \<Rightarrow> bool" where
  "invalid_messages N m =
     (\<not> truthy N m \<or> \<not> isArray m
      \<or> (case m of Some (JArray xs) \<Rightarrow> length xs = 0 | _ \<Rightarrow> False))"

text \<open>
  \<^verbatim>\<open>res.status(n).json(body)\<close> after the given headers were set with \<^verbatim>\<open>res.setHeader\<close>. When a
  \<^verbatim>\<open>Content-Type\<close> is already set, Express keeps it and, in \<^verbatim>\<open>res.send\<close>, parses it to add the
  charset; the parser throws a TypeError (invalid media type) unless the value is
  \<^verbatim>\<open>type/subtype\<close>, both of token characters. Then nothing is sent. (Header values with
  parameters do not occur here.)
\<close>

definition is_token_char :: "nat \<Rightarrow> bool" where
  "is_token_char c =
     ((48 \<le> c \<and> c \<le> 57) \<or> (65 \<le> c \<and> c \<le> 90) \<or> (97 \<le> c \<and> c \<le> 122)
      \<or> c \<in> set (S ''!#$%&*+.^_|~-'') \<or> c = 39 \<or> c = 96)"

definition is_media_type :: "jsstring \<Rightarrow> bool" where
  "is_media_type t =
     (case split t 47 of
        [a, b] \<Rightarrow> a \<noteq> [] \<and> b \<noteq> [] \<and> list_all is_token_char a \<and> list_all is_token_char b
      | _ \<Rightarrow> False)"

definition res_json :: "(jsstring \<times> jsstring) list \<Rightarrow> nat \<Rightarrow> json \<Rightarrow> response" where
  "res_json headers status b =
     (case map_of headers (S ''Content-Type'') of
        None \<Rightarrow> Json status headers b
      | Some t \<Rightarrow> if is_media_type t then Json status headers b else NoResponse)"

text \<open>
  The \<^verbatim>\<open>catch\<close> of lines 209 to 217. Every statement of the \<^verbatim>\<open>try\<close> block that can throw
  stands before the first \<^verbatim>\<open>res.json\<close> and before \<^verbatim>\<open>stream.pipe(res)\<close>, so \<^verbatim>\<open>res.headersSent\<close> is
  false when the \<^verbatim>\<open>catch\<close> runs.
\<close>

definition caught :: "(jsstring \<times> jsstring) list \<Rightarrow> js_error \<Rightarrow> response" where
  "caught headers e =
     res_json headers 500
       (error_body (S ''Internal server error: '' @ message e) (S ''server_error''))"

definition stream_headers :: "(jsstring \<times> jsstring) list" where
  "stream_headers =
     [(S ''Content-Type'', S ''text-event-stream''),
      (S ''Cache-Control'', S ''no-cache''),
      (S ''Connection'', S ''keep-alive'')]"

text \<open>
  Lines 137 to 155, \<^verbatim>\<open>requestData.stream\<close> truthy. The three headers are set before the
  \<^verbatim>\<open>await\<close>, so a rejection reaches the \<^verbatim>\<open>catch\<close> with them set. The stream is piped to
  \<^verbatim>\<open>res\<close>, which ends when the stream ends. The listener for \<^verbatim>\<open>'close'\<close> on \<^verbatim>\<open>req\<close> is registered
  after the \<^verbatim>\<open>await\<close>. The image runs Node 20 (\<^verbatim>\<open>Dockerfile\<close>), where \<^verbatim>\<open>req\<close> emits \<^verbatim>\<open>'close'\<close> once
  its body has been read, which \<^verbatim>\<open>express.json()\<close> did before the handler started: the
  listener comes too late to be called, and \<^verbatim>\<open>stream.end()\<close> is never called. When the client
  disconnects, \<^verbatim>\<open>res\<close> holds the chunks written until then and is not ended.
\<close>

definition streaming :: "env \<Rightarrow> request \<Rightarrow> json \<Rightarrow> call list \<Rightarrow> result" where
  "streaming env req notionRequestBody made =
     (case streamNotionResponse env notionRequestBody of
        Inl e \<Rightarrow>
          \<lparr>response = caught stream_headers e,
           calls = made @ [StreamNotionResponse notionRequestBody]\<rparr>
      | Inr stream \<Rightarrow>
          (case close_after req of
             None \<Rightarrow>
               \<lparr>response = Piped stream_headers (emitted stream) (outcome stream = Ends),
                calls = made @ [StreamNotionResponse notionRequestBody, ReqOnClose]\<rparr>
           | Some k \<Rightarrow>
               \<lparr>response = Piped stream_headers (take k (emitted stream)) False,
                calls = made @ [StreamNotionResponse notionRequestBody, ReqOnClose]\<rparr>))"

text \<open>
  Lines 156 to 207, the non-streaming branch: the listeners \<^verbatim>\<open>'data'\<close>, \<^verbatim>\<open>'end'\<close> and
  \<^verbatim>\<open>'error'\<close> on the stream, and no listener on \<^verbatim>\<open>req\<close>. In the \<^verbatim>\<open>'end'\<close> listener a TypeError
  of \<^verbatim>\<open>chunks.join('')\<close> leaves the listener before \<^verbatim>\<open>res.json\<close> is reached, and nothing is
  sent.
\<close>

definition non_streaming :: "env \<Rightarrow> request \<Rightarrow> json option \<Rightarrow> json \<Rightarrow> call list \<Rightarrow> result" where
  "non_streaming env req model notionRequestBody made =
     (case streamNotionResponse env notionRequestBody of
        Inl e \<Rightarrow>
          \<lparr>response = caught [] e,
           calls = made @ [StreamNotionResponse notionRequestBody]\<rparr>
      | Inr stream \<Rightarrow>
          \<lparr>response =
             (case outcome stream of
                Ends \<Rightarrow>
                  (case Array_join (numbers env) (on_all_data (numbers env) (emitted stream)) [] of
                     Inl e \<Rightarrow> NoResponse
                   | Inr content \<Rightarrow>
                       Json 200 []
                         (fullResponse (randomUUID env) (Date_now env) model content))
              | Fails e \<Rightarrow>
                  Json 500 []
                    (JObject
                       [(S ''error'',
                         JObject [(S ''message'', JString (S ''Stream processing failed''))])])
              | Hangs \<Rightarrow> NoResponse),
           calls = made @ [StreamNotionResponse notionRequestBody]\<rparr>)"

text \<open>Lines 105 to 218, the handler behind the middleware.\<close>

definition chat_completions :: "env \<Rightarrow> request \<Rightarrow> result" where
  "chat_completions env req =
     (if \<not> INITIALIZED_SUCCESSFULLY env then
        \<lparr>response = Json 500 [] (error_body msg_not_initialized (S ''server_error'')),
         calls = []\<rparr>
      else if getValidCount env = 0 then
        \<lparr>response = Json 500 [] (error_body msg_no_cookies (S ''server_error'')),
         calls = [GetValidCount]\<rparr>
      else
        (let requestData = body req in
         case get_prop (Some requestData) Model of
           Inl e \<Rightarrow> \<lparr>response = caught [] e, calls = [GetValidCount]\<rparr>
         | Inr model \<Rightarrow>
             (case get_prop (Some requestData) Stream of
                Inl e \<Rightarrow> \<lparr>response = caught [] e, calls = [GetValidCount]\<rparr>
              | Inr stream \<Rightarrow>
                  (case get_prop (Some requestData) Messages of
                     Inl e \<Rightarrow> \<lparr>response = caught [] e, calls = [GetValidCount]\<rparr>
                   | Inr messages \<Rightarrow>
                       if invalid_messages (numbers env) messages then
                         \<lparr>response =
                            Json 400 []
                              (error_body msg_invalid_messages (S ''invalid_request_error'')),
                          calls = [GetValidCount]\<rparr>
                       else
                         (case buildNotionRequest env requestData of
                            Inl e \<Rightarrow>
                              \<lparr>response = caught [] e,
                               calls = [GetValidCount, BuildNotionRequest requestData]\<rparr>
                          | Inr notionRequestBody \<Rightarrow>
                              if truthy (numbers env) stream then
                                streaming env req notionRequestBody
                                  [GetValidCount, BuildNotionRequest requestData]
                              else
                                non_streaming env req model notionRequestBody
                                  [GetValidCount, BuildNotionRequest requestData])))))"

section \<open>The routes\<close>

datatype endpoint = GET_v1_models | POST_v1_chat_completions | GET_health | GET_cookies_status

definition modelList :: json where
  "modelList =
     JObject
       [(S ''data'',
         JArray
           [JObject [(S ''id'', JString (S ''openai-gpt-4.1''))],
            JObject [(S ''id'', JString (S ''anthropic-opus-4''))],
            JObject [(S ''id'', JString (S ''anthropic-sonnet-4''))],
            JObject [(S ''id'', JString (S ''anthropic-sonnet-3.x-stable''))]])]"

text \<open>The handler of a route, behind \<open>authenticate\<close> where the route has the middleware.\<close>

definition route_handler :: "env \<Rightarrow> endpoint \<Rightarrow> request \<Rightarrow> result" where
  "route_handler env ep req =
     (case ep of
        GET_v1_models \<Rightarrow> \<lparr>response = Json 200 [] modelList, calls = []\<rparr>
      | POST_v1_chat_completions \<Rightarrow> chat_completions env req
      | GET_health \<Rightarrow>
          \<lparr>response =
             Json 200 []
               (JObject
                  [(S ''status'', JString (S ''ok'')),
                   (S ''timestamp'', JString (toISOString env)),
                   (S ''initialized'', JBool (INITIALIZED_SUCCESSFULLY env)),
                   (S ''valid_cookies'', JNumber (decimal (getValidCount env)))]),
           calls = [GetValidCount]\<rparr>
      | GET_cookies_status \<Rightarrow>
          \<lparr>response =
             Json 200 []
               (JObject
                  [(S ''total_cookies'', JNumber (decimal (getValidCount env))),
                   (S ''cookies'', getStatus env)]),
           calls = [GetValidCount, GetStatus]\<rparr>)"

definition authenticated :: "endpoint \<Rightarrow> bool" where
  "authenticated ep = (ep \<noteq> GET_health)"

definition handle :: "env \<Rightarrow> endpoint \<Rightarrow> request \<Rightarrow> result" where
  "handle env ep req =
     (if authenticated ep then
        (case authenticate (EXPECTED_TOKEN (PROXY_AUTH_TOKEN env)) (authorization req) of
           Some r \<Rightarrow> \<lparr>response = r, calls = []\<rparr>
         | None \<Rightarrow> route_handler env ep req)
      else route_handler env ep req)"

section \<open>What the specification talks about\<close>

text \<open>
  Observers of a response and the notions of the specification, used to state the
  properties below. None of them is part of the program.
\<close>

fun member :: "jsstring \<Rightarrow> json \<Rightarrow> json option" where
  "member k (JObject ms) = map_of (rev ms) k"
| "member k _ = None"

fun first_element :: "json \<Rightarrow> json option" where
  "first_element (JArray (x # xs)) = Some x"
| "first_element _ = None"

fun json_body :: "response \<Rightarrow> json option" where
  "json_body (Json status headers b) = Some b"
| "json_body _ = None"

fun status_code :: "response \<Rightarrow> nat option" where
  "status_code (Json status headers b) = Some status"
| "status_code _ = None"

fun headers_set :: "response \<Rightarrow> (jsstring \<times> jsstring) list" where
  "headers_set (Json status headers b) = headers"
| "headers_set (Piped headers written ended) = headers"
| "headers_set NoResponse = []"

text \<open>\<^verbatim>\<open>choices[0].message.content\<close> and \<^verbatim>\<open>choices[0].finish_reason\<close> of a completion body.\<close>

definition completion_content :: "response \<Rightarrow> json option" where
  "completion_content r =
     Option.bind (Option.bind (Option.bind (Option.bind (json_body r)
       (member (S ''choices''))) first_element) (member (S ''message''))) (member (S ''content''))"

definition completion_finish_reason :: "response \<Rightarrow> json option" where
  "completion_finish_reason r =
     Option.bind (Option.bind (Option.bind (json_body r)
       (member (S ''choices''))) first_element) (member (S ''finish_reason''))"

text \<open>
  An upstream event \<^verbatim>\<open>data: <json>\<close>: its payload is the text after the prefix, without the
  white space around it (the blank line that ends an event); the event is well-formed
  when the payload is JSON.
\<close>

definition payload :: "jsstring \<Rightarrow> jsstring" where
  "payload event = trim (substring event 6)"

definition event_json :: "jsstring \<Rightarrow> json option" where
  "event_json event =
     (if startsWith event (S ''data: '') then JSON_parse (payload event) else None)"

text \<open>
  The \<open>deltaContent\<close> and the \<open>finishReason\<close> of a chat chunk
  \<^verbatim>\<open>{"choices":[{"delta":{"content":...},"finish_reason":...}]}\<close>: a string, or null (\<open>None\<close>).
\<close>

definition deltaContent :: "json \<Rightarrow> jsstring option" where
  "deltaContent j =
     (case Option.bind (Option.bind (Option.bind (member (S ''choices'') j) first_element)
             (member (S ''delta''))) (member (S ''content'')) of
        Some (JString d) \<Rightarrow> Some d
      | _ \<Rightarrow> None)"

definition finishReason :: "json \<Rightarrow> jsstring option" where
  "finishReason j =
     (case Option.bind (Option.bind (member (S ''choices'') j) first_element)
             (member (S ''finish_reason'')) of
        Some (JString r) \<Rightarrow> Some r
      | _ \<Rightarrow> None)"

text \<open>
  The specification's aggregate of a stream of events (section 4.4, step 5): the
  concatenation of every \<open>deltaContent\<close> in emission order, and the last non-null
  \<open>finishReason\<close>, \<^verbatim>\<open>"stop"\<close> if there is none.
\<close>

definition event_delta :: "jsstring \<Rightarrow> jsstring" where
  "event_delta event =
     (case Option.bind (event_json event) deltaContent of None \<Rightarrow> [] | Some d \<Rightarrow> d)"

definition spec_content :: "jsstring list \<Rightarrow> jsstring" where
  "spec_content events = concat (map event_delta events)"

definition spec_finishReason :: "jsstring list \<Rightarrow> jsstring" where
  "spec_finishReason events =
     (case List.map_filter (\<lambda>e. Option.bind (event_json e) finishReason) events of
        [] \<Rightarrow> S ''stop''
      | r # rs \<Rightarrow> last (r # rs))"

text \<open>
  What the handler keeps of an event: the \<open>deltaContent\<close> of a well-formed event whose text
  does not contain the sentinel.
\<close>

definition kept_delta :: "jsstring \<Rightarrow> jsstring" where
  "kept_delta event = (if js_includes event (S ''[DONE]'') then [] else event_delta event)"

text \<open>
  A typed chat chunk: \<^verbatim>\<open>choices\<close>, when present, is not a plain object, and
  \<^verbatim>\<open>choices[0].delta.content\<close>, when present, is a string or null (the specification's
  \<open>deltaContent: string|null\<close>).
\<close>

definition typed_chunk :: "json \<Rightarrow> bool" where
  "typed_chunk j =
     ((case member (S ''choices'') j of Some (JObject ms) \<Rightarrow> False | _ \<Rightarrow> True)
      \<and> (case Option.bind (Option.bind (Option.bind (member (S ''choices'') j) first_element)
                 (member (S ''delta''))) (member (S ''content'')) of
           None \<Rightarrow> True
         | Some JNull \<Rightarrow> True
         | Some (JString d) \<Rightarrow> True
         | _ \<Rightarrow> False))"

definition typed_event :: "jsstring \<Rightarrow> bool" where
  "typed_event event = (case event_json event of None \<Rightarrow> True | Some j \<Rightarrow> typed_chunk j)"

text \<open>
  The token an \<^verbatim>\<open>Authorization: Bearer <token>\<close> header carries: the text after \<^verbatim>\<open>Bearer \<close>, up
  to the next space.
\<close>

definition bearer_token :: "jsstring \<Rightarrow> jsstring" where
  "bearer_token header = takeWhile (\<lambda>c. c \<noteq> 32) (drop 7 header)"

text \<open>
  Modelled from the spec: \<^verbatim>\<open>lightweight-client.js\<close>, which defines \<^verbatim>\<open>streamNotionResponse\<close>, and
  the two pools it selects from are missing from the sources. Section 4.5: the call fails
  fast with \<open>NoCredentialAvailable\<close> or \<open>NoEgressAvailable\<close> if either pool's \<open>select()\<close>
  signals exhaustion; otherwise it invokes the upstream call bound to the selected
  credential and route.
\<close>

datatype 'a selection = NoneAvailable | Selected 'a

definition spec_streamNotionResponse ::
  "jsstring selection \<Rightarrow> jsstring selection \<Rightarrow>
   (jsstring \<Rightarrow> jsstring \<Rightarrow> json \<Rightarrow> js_error + upstream) \<Rightarrow> json \<Rightarrow> js_error + upstream" where
  "spec_streamNotionResponse credential route sendUpstreamRequest notionRequestBody =
     (case credential of
        NoneAvailable \<Rightarrow> Inl (Thrown (S ''NoCredentialAvailable''))
      | Selected c \<Rightarrow>
          (case route of
             NoneAvailable \<Rightarrow> Inl (Thrown (S ''NoEgressAvailable''))
           | Selected r \<Rightarrow> sendUpstreamRequest c r notionRequestBody))"





section \<open>Concrete inputs\<close>

text \<open>
  A runtime, an environment and a request to evaluate the handlers on. No example below
  holds a number, so the choice of \<open>sample_numbers\<close> does not matter.
\<close>

definition sample_numbers :: number_ops where
  "sample_numbers = \<lparr>number_is_zero = (=) (S ''0''), number_to_string = id\<rparr>"

definition hello_stream :: upstream where
  \<open>hello_stream =
     \<lparr>emitted =
        [S ''data: {"choices":[{"delta":{"content":"Hel"}}]}'',
         S ''data: {"choices":[{"delta":{"content":"lo"}}]}'',
         S ''data: [DONE]''],
      outcome = Ends\<rparr>\<close>

definition sample_env :: env where
  "sample_env =
     \<lparr>PROXY_AUTH_TOKEN = None,
      INITIALIZED_SUCCESSFULLY = True,
      getValidCount = 1,
      getStatus = JArray [],
      buildNotionRequest = Inr,
      streamNotionResponse = (\<lambda>b. Inr hello_stream),
      randomUUID = S ''00000000-0000-4000-8000-000000000000'',
      Date_now = 1700000000000,
      toISOString = S ''2023-11-14T22:13:20.000Z'',
      numbers = sample_numbers\<rparr>"

definition sample_request :: request where
  \<open>sample_request =
     \<lparr>authorization = Some (S ''Bearer default_token''),
      body =
        JObject
          [(S ''model'', JString (S ''anthropic-sonnet-4'')),
           (S ''messages'',
            JArray [JObject [(S ''role'', JString (S ''user'')),
                             (S ''content'', JString (S ''Hi''))]])],
      close_after = None\<rparr>\<close>

text \<open>A well-formed event whose content holds the text of the sentinel.\<close>

definition done_content_chunk :: jsstring where
  \<open>done_content_chunk =
     S ''data: {"choices":[{"delta":{"content":"type [DONE] to finish"}}]}''\<close>

text \<open>An event whose payload is not JSON, and a stream that holds it between two events.\<close>

definition malformed_chunk :: jsstring where
  "malformed_chunk = S ''data: {not json''"

definition interleaved_env :: env where
  \<open>interleaved_env =
     sample_env
       \<lparr>streamNotionResponse :=
          (\<lambda>b. Inr \<lparr>emitted =
                      [S ''data: {"choices":[{"delta":{"content":"Hel"}}]}''] @ malformed_chunk
                      # [S ''data: {"choices":[{"delta":{"content":"lo"}}]}''],
                    outcome = Ends\<rparr>)\<rparr>\<close>

text \<open>A stream whose only event has the finish reason \<^verbatim>\<open>length\<close>.\<close>

definition length_stream :: upstream where
  \<open>length_stream =
     \<lparr>emitted =
        [S ''data: {"choices":[{"delta":{"content":"Hi"},"finish_reason":"length"}]}'',
         S ''data: [DONE]''],
      outcome = Ends\<rparr>\<close>

definition length_env :: env where
  "length_env = sample_env\<lparr>streamNotionResponse := (\<lambda>b. Inr length_stream)\<rparr>"

text \<open>
  An environment that did not initialise, a request without \<^verbatim>\<open>messages\<close>, a request with
  \<^verbatim>\<open>stream: true\<close>, requests whose client disconnects after the first chunk, and an
  environment whose egress pool has no route left.
\<close>

definition uninitialized_env :: env where
  "uninitialized_env = sample_env\<lparr>INITIALIZED_SUCCESSFULLY := False\<rparr>"

definition no_messages_request :: request where
  "no_messages_request =
     sample_request\<lparr>body := JObject [(S ''model'', JString (S ''anthropic-sonnet-4''))]\<rparr>"

definition streaming_request :: request where
  "streaming_request =
     \<lparr>authorization = Some (S ''Bearer default_token''),
      body =
        JObject
          [(S ''model'', JString (S ''anthropic-sonnet-4'')),
           (S ''messages'',
            JArray [JObject [(S ''role'', JString (S ''user'')),
                             (S ''content'', JString (S ''Hi''))]]),
           (S ''stream'', JBool True)],
      close_after = None\<rparr>"

definition disconnecting_request :: request where
  "disconnecting_request = sample_request\<lparr>close_after := Some 1\<rparr>"

definition disconnecting_streaming_request :: request where
  "disconnecting_streaming_request = streaming_request\<lparr>close_after := Some 1\<rparr>"

definition egress_exhausted_env :: env where
  "egress_exhausted_env =
     sample_env
       \<lparr>streamNotionResponse :=
          spec_streamNotionResponse (Selected (S ''cookie-1'')) NoneAvailable
            (\<lambda>c r b. Inr hello_stream)\<rparr>"

text \<open>
  A stream in which a well-formed event that mentions the sentinel follows the malformed
  one; an environment with a configured secret; the bytes of an event, the sentinel and a
  late event, cut into reads in the middle of the event and of the blank line.
\<close>

definition done_after_malformed_env :: env where
  \<open>done_after_malformed_env =
     sample_env
       \<lparr>streamNotionResponse :=
          (\<lambda>b. Inr \<lparr>emitted =
                      [S ''data: {"choices":[{"delta":{"content":"Hel"}}]}'', malformed_chunk,
                       done_content_chunk],
                    outcome = Ends\<rparr>)\<rparr>\<close>





section \<open>The \<^verbatim>\<open>'data'\<close> listener, chunk by chunk\<close>

text \<open>The listener only ever appends to \<^verbatim>\<open>chunks\<close>, and what it appends depends on the chunk alone.\<close>

lemma on_data_append: "on_data N chunks c = chunks @ on_data N [] c"
  by (simp add: on_data_def Let_def split: option.splits sum.splits)

lemma foldl_on_data: "foldl (on_data N) acc cs = acc @ foldl (on_data N) [] cs"
proof (induction cs arbitrary: acc)
  case Nil
  then show ?case by simp
next
  case (Cons c cs)
  have "foldl (on_data N) acc (c # cs) = on_data N acc c @ foldl (on_data N) [] cs"
    using Cons.IH [of "on_data N acc c"] by simp
  also have "\<dots> = acc @ on_data N [] c @ foldl (on_data N) [] cs"
    using on_data_append [of N acc c] by simp
  also have "\<dots> = acc @ foldl (on_data N) (on_data N [] c) cs"
    using Cons.IH [of "on_data N [] c"] by simp
  finally show ?case by simp
qed

lemma on_all_data_append: "on_all_data N (xs @ ys) = on_all_data N xs @ on_all_data N ys"
  unfolding on_all_data_def using foldl_on_data [of N "foldl (on_data N) [] xs" ys] by simp

lemma on_all_data_Cons: "on_all_data N (c # cs) = on_data N [] c @ on_all_data N cs"
  unfolding on_all_data_def using foldl_on_data [of N "on_data N [] c" cs] by simp

lemma on_all_data_Nil: "on_all_data N [] = []"
  by (simp add: on_all_data_def)

text \<open>The equations that evaluate the listeners on a concrete chunk.\<close>

lemmas run = S_def startsWith_def substring_def trim_def is_js_space_def payload_def
  JSON_parse_def is_json_ws_def is_digit_def lex_escape_def hex4_def hex_val_def escape_char_def
  lex_number_def lex_int_def lex_frac_def lex_exp_def lex_sign_def lex_minus_def lex_digits_def
  chunk_content_def on_data_def on_all_data_def js_nth_def
  Array_join_def fullResponse_def sample_numbers_def

lemma includes_done: "js_includes (S ''data: [DONE]'' @ rest) (S ''[DONE]'')"
  by (simp add: S_def)

text \<open>
  Property reads against the observers: a read that returns gives what \<open>member\<close> and
  \<open>first_element\<close> give, a read that throws stands where they give nothing.
\<close>

lemma get_named_Inr:
  "get_prop v k = Inr x \<Longrightarrow> k \<noteq> Index0 \<Longrightarrow> x = Option.bind v (member (key_name k))"
  by (cases v; cases "the v") auto

lemma get_named_Inl:
  "get_prop v k = Inl e \<Longrightarrow> Option.bind v (member n) = None"
  by (cases v; cases "the v") auto

lemma get_index_Inr:
  assumes "get_prop v Index0 = Inr x" and "\<forall>ms. v \<noteq> Some (JObject ms)"
  shows "Option.bind x (member n) = Option.bind (Option.bind v first_element) (member n)"
proof (cases v)
  case None
  with assms show ?thesis by simp
next
  case (Some a)
  show ?thesis
  proof (cases a)
    case (JArray xs)
    with assms Some show ?thesis by (cases xs) (auto simp: js_nth_def)
  next
    case (JString s)
    with assms Some show ?thesis by (auto simp: js_nth_def)
  qed (use assms Some in auto)
qed

lemma get_index_Inl:
  "get_prop v Index0 = Inl e \<Longrightarrow> Option.bind v first_element = None"
  by (cases v; cases "the v") auto

lemma falsy_first: "\<not> truthy N v \<Longrightarrow> Option.bind v first_element = None"
  by (cases v; cases "the v") auto

lemma falsy_member: "\<not> truthy N v \<Longrightarrow> Option.bind v (member n) = None"
  by (cases v; cases "the v") auto

lemma chunk_content_Inl:
  assumes "chunk_content N j = Inl e" and "\<forall>ms. member (S ''choices'') j \<noteq> Some (JObject ms)"
  shows "Option.bind (Option.bind (Option.bind (member (S ''choices'') j) first_element)
           (member (S ''delta''))) (member (S ''content'')) = None"
proof -
  let ?c = "member (S ''choices'') j"
  show ?thesis
  proof (cases "get_prop (Some j) Choices")
    case (Inl e')
    then have "?c = None" using get_named_Inl [of "Some j" Choices e' "S ''choices''"] by simp
    then show ?thesis by simp
  next
    case (Inr ch)
    then have ch: "ch = ?c" using get_named_Inr [of "Some j" Choices ch] by simp
    show ?thesis
    proof (cases "truthy N ?c")
      case False
      with assms(1) Inr ch show ?thesis by (simp add: chunk_content_def)
    next
      case t: True
      show ?thesis
      proof (cases "get_prop ?c Index0")
        case (Inl e')
        then show ?thesis using get_index_Inl [of ?c e'] by simp
      next
        case f: (Inr f)
        have fd: "Option.bind f (member (S ''delta''))
                  = Option.bind (Option.bind ?c first_element) (member (S ''delta''))"
          using get_index_Inr [OF f assms(2)] .
        show ?thesis
        proof (cases "get_prop f Delta")
          case (Inl e')
          then have "Option.bind f (member (S ''delta'')) = None" by (rule get_named_Inl)
          with fd show ?thesis by simp
        next
          case d: (Inr dl)
          then have dl: "dl = Option.bind f (member (S ''delta''))"
            using get_named_Inr [of f Delta dl] by simp
          show ?thesis
          proof (cases "truthy N dl")
            case False
            with assms(1) Inr ch t f d show ?thesis by (simp add: chunk_content_def)
          next
            case True
            with assms(1) Inr ch t f d obtain e' where "get_prop dl Content = Inl e'"
              by (auto simp: chunk_content_def split: sum.splits if_splits)
            then have "Option.bind dl (member (S ''content'')) = None" by (rule get_named_Inl)
            with dl fd show ?thesis by simp
          qed
        qed
      qed
    qed
  qed
qed

lemma chunk_content_Inr:
  assumes "chunk_content N j = Inr x" and "\<forall>ms. member (S ''choices'') j \<noteq> Some (JObject ms)"
  shows "x = (if truthy N (Option.bind (Option.bind (Option.bind (member (S ''choices'') j) first_element)
           (member (S ''delta''))) (member (S ''content'')))
              then Option.bind (Option.bind (Option.bind (member (S ''choices'') j) first_element)
           (member (S ''delta''))) (member (S ''content'')) else None)"
proof -
  let ?c = "member (S ''choices'') j"
  from assms(1) obtain ch where Inr: "get_prop (Some j) Choices = Inr ch"
    by (auto simp: chunk_content_def split: sum.splits)
  then have ch: "ch = ?c" using get_named_Inr [of "Some j" Choices ch] by simp
  show ?thesis
  proof (cases "truthy N ?c")
    case False
    then have "Option.bind ?c first_element = None" by (rule falsy_first)
    with assms(1) Inr ch False show ?thesis by (simp add: chunk_content_def)
  next
    case t: True
    from assms(1) Inr ch t obtain f where f: "get_prop ?c Index0 = Inr f"
      by (auto simp: chunk_content_def split: sum.splits)
    have fd: "Option.bind f (member (S ''delta''))
              = Option.bind (Option.bind ?c first_element) (member (S ''delta''))"
      using get_index_Inr [OF f assms(2)] .
    from assms(1) Inr ch t f obtain dl where d: "get_prop f Delta = Inr dl"
      by (auto simp: chunk_content_def split: sum.splits)
    then have dl: "dl = Option.bind f (member (S ''delta''))"
      using get_named_Inr [of f Delta dl] by simp
    show ?thesis
    proof (cases "truthy N dl")
      case False
      then have "Option.bind dl (member (S ''content'')) = None" by (rule falsy_member)
      with assms(1) Inr ch t f d False dl fd show ?thesis by (simp add: chunk_content_def)
    next
      case True
      with assms(1) Inr ch t f d obtain ct where c: "get_prop dl Content = Inr ct"
        and x: "x = (if truthy N ct then ct else None)"
        by (auto simp: chunk_content_def split: sum.splits if_splits)
      from c have "ct = Option.bind dl (member (S ''content''))"
        using get_named_Inr [of dl Content ct] by simp
      with x dl fd show ?thesis by simp
    qed
  qed
qed

lemma typed_chunk_content:
  assumes "typed_chunk j"
  shows "Array_join N (case chunk_content N j of Inl e \<Rightarrow> [] | Inr None \<Rightarrow> [] | Inr (Some v) \<Rightarrow> [v]) []
         = Inr (case deltaContent j of None \<Rightarrow> [] | Some d \<Rightarrow> d)"
proof -
  let ?p = "Option.bind (Option.bind (Option.bind (member (S ''choices'') j) first_element)
           (member (S ''delta''))) (member (S ''content''))"
  from assms have no: "\<forall>ms. member (S ''choices'') j \<noteq> Some (JObject ms)"
    by (auto simp: typed_chunk_def split: option.splits json.splits)
  from assms have p: "?p = None \<or> ?p = Some JNull \<or> (\<exists>d. ?p = Some (JString d))"
    by (auto simp: typed_chunk_def split: option.splits json.splits)
  show ?thesis
  proof (cases "chunk_content N j")
    case (Inl e)
    then have "?p = None" using no by (rule chunk_content_Inl)
    with Inl show ?thesis by (simp add: deltaContent_def Array_join_def)
  next
    case (Inr x)
    then have "x = (if truthy N ?p then ?p else None)" using no by (rule chunk_content_Inr)
    with Inr p show ?thesis
      by (auto simp: deltaContent_def Array_join_def)
  qed
qed

text \<open>A typed event adds exactly what \<open>kept_delta\<close> says.\<close>

lemma join_with_empty: "join_with [] xs = concat xs"
  by (induction "[] :: jsstring" xs rule: join_with.induct) simp_all

lemma all_or_error_append:
  "all_or_error rs = Inr a \<Longrightarrow> all_or_error ss = Inr b \<Longrightarrow> all_or_error (rs @ ss) = Inr (a @ b)"
proof (induction rs arbitrary: a)
  case Nil
  then show ?case by simp
next
  case (Cons r rs)
  then show ?case
    by (cases r) (auto split: sum.splits)
qed

lemma Array_join_append:
  assumes "Array_join N xs [] = Inr a" and "Array_join N ys [] = Inr b"
  shows "Array_join N (xs @ ys) [] = Inr (a @ b)"
proof -
  let ?f = "\<lambda>x. if x = JNull then Inr [] else ToString N x"
  from assms(1) obtain ps where ps: "all_or_error (map ?f xs) = Inr ps" and a: "a = concat ps"
    by (auto simp: Array_join_def join_with_empty split: sum.splits)
  from assms(2) obtain qs where qs: "all_or_error (map ?f ys) = Inr qs" and b: "b = concat qs"
    by (auto simp: Array_join_def join_with_empty split: sum.splits)
  have "all_or_error (map ?f (xs @ ys)) = Inr (ps @ qs)"
    using all_or_error_append [OF ps qs] by simp
  then show ?thesis
    by (simp add: Array_join_def join_with_empty a b)
qed

lemma JSON_parse_empty: "JSON_parse [] = None"
  by (simp add: JSON_parse_def)

lemma on_data_typed:
  assumes "typed_event c"
  shows "Array_join N (on_data N [] c) [] = Inr (kept_delta c)"
proof (cases "startsWith c (S ''data: '') \<and> \<not> js_includes c (S ''[DONE]'')")
  case False
  then show ?thesis
    by (auto simp: on_data_def kept_delta_def event_delta_def event_json_def Array_join_def)
next
  case True
  show ?thesis
  proof (cases "JSON_parse (payload c)")
    case None
    with True show ?thesis
      by (simp add: on_data_def kept_delta_def event_delta_def event_json_def Array_join_def
          payload_def Let_def)
  next
    case (Some j)
    with True have ne: "payload c \<noteq> []" using JSON_parse_empty by auto
    from assms True Some have "typed_chunk j"
      by (simp add: typed_event_def event_json_def)
    then have "Array_join N (case chunk_content N j of Inl e \<Rightarrow> [] | Inr None \<Rightarrow> []
                 | Inr (Some v) \<Rightarrow> [v]) []
               = Inr (case deltaContent j of None \<Rightarrow> [] | Some d \<Rightarrow> d)"
      by (rule typed_chunk_content)
    moreover have "on_data N [] c = (case chunk_content N j of Inl e \<Rightarrow> [] | Inr None \<Rightarrow> []
                 | Inr (Some v) \<Rightarrow> [v])"
      using True Some ne by (simp add: on_data_def payload_def Let_def split: sum.splits option.splits)
    moreover have "kept_delta c = (case deltaContent j of None \<Rightarrow> [] | Some d \<Rightarrow> d)"
      using True Some by (simp add: kept_delta_def event_delta_def event_json_def)
    ultimately show ?thesis by simp
  qed
qed

lemma on_all_data_typed:
  "\<forall>c\<in>set cs. typed_event c \<Longrightarrow>
   Array_join N (on_all_data N cs) [] = Inr (concat (map kept_delta cs))"
proof (induction cs)
  case Nil
  then show ?case by (simp add: on_all_data_Nil Array_join_def)
next
  case (Cons c cs)
  then have "Array_join N (on_data N [] c) [] = Inr (kept_delta c)"
    and "Array_join N (on_all_data N cs) [] = Inr (concat (map kept_delta cs))"
    by (simp_all add: on_data_typed)
  then show ?case
    using Array_join_append [of N "on_data N [] c" "kept_delta c" "on_all_data N cs"]
    by (simp add: on_all_data_Cons)
qed

lemma reaches_branch:
  assumes "INITIALIZED_SUCCESSFULLY env" and "getValidCount env \<noteq> 0"
    and "body req = JObject members"
    and "\<not> invalid_messages (numbers env) (member (S ''messages'') (body req))"
    and "buildNotionRequest env (body req) = Inr notionRequestBody"
  shows "chat_completions env req =
         (if truthy (numbers env) (member (S ''stream'') (body req))
          then streaming env req notionRequestBody [GetValidCount, BuildNotionRequest (body req)]
          else non_streaming env req (member (S ''model'') (body req)) notionRequestBody
                 [GetValidCount, BuildNotionRequest (body req)])"
  using assms by (simp add: chat_completions_def Let_def)

lemma fullResponse_content:
  "completion_content (Json status headers (fullResponse uuid now model content))
   = Some (JString content)"
  by (cases model) (simp_all add: completion_content_def fullResponse_def S_def)

lemma fullResponse_finish_reason:
  "completion_finish_reason (Json status headers (fullResponse uuid now model content))
   = Some (JString (S ''stop''))"
  by (cases model) (simp_all add: completion_finish_reason_def fullResponse_def S_def)

text \<open>The sample request and the environment of \<open>length_stream\<close>, field by field.\<close>

lemma sample_members:
  "member (S ''messages'') (body sample_request)
     = Some (JArray [JObject [(S ''role'', JString (S ''user'')), (S ''content'', JString (S ''Hi''))]])"
  "member (S ''stream'') (body sample_request) = None"
  by (simp_all add: sample_request_def S_def)

lemma sample_body:
  "body sample_request
   = JObject
       [(S ''model'', JString (S ''anthropic-sonnet-4'')),
        (S ''messages'',
         JArray [JObject [(S ''role'', JString (S ''user'')),
                          (S ''content'', JString (S ''Hi''))]])]"
  by (simp add: sample_request_def)

lemma length_env_simps:
  "INITIALIZED_SUCCESSFULLY length_env" "getValidCount length_env \<noteq> 0"
  "buildNotionRequest length_env b = Inr b" "streamNotionResponse length_env b = Inr length_stream"
  "numbers length_env = sample_numbers"
  by (simp_all add: length_env_def sample_env_def)

section \<open>The fields of the \<^verbatim>\<open>Authorization\<close> header\<close>

text \<open>
  \<^verbatim>\<open>authHeader.split(' ')[1]\<close> of a header that starts with \<^verbatim>\<open>Bearer \<close> is the text after the
  prefix up to the next space.
\<close>

lemma split_not_Nil: "split s sep \<noteq> []"
  by (induction s sep rule: split.induct) (auto split: list.splits)

lemma hd_split: "hd (split s sep) = takeWhile (\<lambda>c. c \<noteq> sep) s"
  by (induction s sep rule: split.induct) (auto split: list.splits simp: split_not_Nil)

lemma split_field: "sep \<notin> set a \<Longrightarrow> split (a @ sep # t) sep = a # split t sep"
  by (induction a) (auto split: list.splits simp: split_not_Nil)

lemma second_field:
  assumes "startsWith h (S ''Bearer '')"
  shows "js_nth (split h 32) 1 = Some (bearer_token h)"
proof -
  from assms obtain t where h: "h = S ''Bearer '' @ t"
    by (auto simp: startsWith_def prefix_def)
  have "S ''Bearer '' = S ''Bearer'' @ [32]" by (simp add: S_def)
  with h have h': "h = S ''Bearer'' @ 32 # t" by simp
  have "32 \<notin> set (S ''Bearer'')" by (simp add: S_def)
  then have "split h 32 = S ''Bearer'' # split t 32"
    unfolding h' by (rule split_field)
  moreover have "drop 7 h = t" using h by (simp add: S_def)
  ultimately show ?thesis
    using split_not_Nil [of t 32] hd_split [of t 32]
    by (cases "split t 32") (auto simp: js_nth_def bearer_token_def)
qed

lemma authenticate_passes:
  "authenticate expected header = None
   \<longleftrightarrow> (\<exists>h. header = Some h \<and> startsWith h (S ''Bearer '') \<and> js_nth (split h 32) 1 = Some expected)"
  by (cases header) (auto simp: authenticate_def startsWith_def S_def)


lemma takeWhile_field:
  assumes "sep \<notin> set e"
  shows "takeWhile (\<lambda>c. c \<noteq> sep) t = e \<longleftrightarrow> t = e \<or> prefix (e @ [sep]) t"
proof
  assume l: "takeWhile (\<lambda>c. c \<noteq> sep) t = e"
  have t: "t = e @ dropWhile (\<lambda>c. c \<noteq> sep) t"
    using takeWhile_dropWhile_id [of "\<lambda>c. c \<noteq> sep" t] l by simp
  show "t = e \<or> prefix (e @ [sep]) t"
  proof (cases "dropWhile (\<lambda>c. c \<noteq> sep) t")
    case Nil
    with t show ?thesis by simp
  next
    case (Cons x xs)
    then have "x = sep" using hd_dropWhile [of "\<lambda>c. c \<noteq> sep" t] by simp
    with t Cons have "t = (e @ [sep]) @ xs" by simp
    then show ?thesis unfolding prefix_def by blast
  qed
next
  assume "t = e \<or> prefix (e @ [sep]) t"
  then show "takeWhile (\<lambda>c. c \<noteq> sep) t = e"
  proof
    assume "t = e"
    with assms show ?thesis by (auto simp: takeWhile_eq_all_conv)
  next
    assume "prefix (e @ [sep]) t"
    then obtain r where "t = e @ sep # r" by (auto simp: prefix_def)
    with assms show ?thesis by (auto simp: takeWhile_tail)
  qed
qed

section \<open>The branches of the handler\<close>

lemma get_prop_named:
  "j \<noteq> JNull \<Longrightarrow> k \<noteq> Index0 \<Longrightarrow> get_prop (Some j) k = Inr (member (key_name k) j)"
  by (cases j) auto

lemma sample_env_simps:
  "INITIALIZED_SUCCESSFULLY sample_env" "getValidCount sample_env \<noteq> 0"
  "buildNotionRequest sample_env b = Inr b" "streamNotionResponse sample_env b = Inr hello_stream"
  "numbers sample_env = sample_numbers" "PROXY_AUTH_TOKEN sample_env = None"
  by (simp_all add: sample_env_def)

lemma streaming_body:
  "body streaming_request
   = JObject
       [(S ''model'', JString (S ''anthropic-sonnet-4'')),
        (S ''messages'',
         JArray [JObject [(S ''role'', JString (S ''user'')),
                          (S ''content'', JString (S ''Hi''))]]),
        (S ''stream'', JBool True)]"
  by (simp add: streaming_request_def)

lemma streaming_members:
  "member (S ''messages'') (body streaming_request)
     = Some (JArray [JObject [(S ''role'', JString (S ''user'')), (S ''content'', JString (S ''Hi''))]])"
  "member (S ''stream'') (body streaming_request) = Some (JBool True)"
  by (simp_all add: streaming_request_def S_def)

lemma spec_exhausted:
  assumes "credential = NoneAvailable \<or> route = NoneAvailable"
  shows "\<exists>name. \<forall>send b. spec_streamNotionResponse credential route send b = Inl (Thrown name)"
  using assms by (cases credential; cases route) (auto simp: spec_streamNotionResponse_def)

text \<open>
What \<^verbatim>\<open>res.json\<close> does with the headers of the two branches: \<^verbatim>\<open>text-event-stream\<close> is no media type, so on the
  streaming branch \<^verbatim>\<open>res.send\<close> throws and nothing is sent.
\<close>

lemma text_event_stream_unanswered: "res_json stream_headers status b = NoResponse"
  by (simp add: res_json_def stream_headers_def is_media_type_def S_def)

lemma plain_json_answered: "res_json [] status b = Json status [] b"
  by (simp add: res_json_def)


section \<open>The specification's translator\<close>
















section \<open>Properties of the non-streaming aggregation\<close>

text \<open>
  Claim C8. In non-streaming mode a read chunk whose text contains \<^verbatim>\<open>[DONE]\<close> anywhere adds
  nothing to the aggregation: the chunks collected from a stream are those collected from
  the stream without that chunk. This holds also for a well-formed event whose content
  holds \<^verbatim>\<open>[DONE]\<close>, whose content is thereby dropped.
\<close>

theorem done_chunk_dropped:
  assumes "js_includes chunk (S ''[DONE]'')"
  shows "on_all_data N (earlier @ chunk # later) = on_all_data N (earlier @ later)"
proof -
  have "on_data N [] chunk = []"
    using assms by (simp add: on_data_def)
  then show ?thesis
    by (simp add: on_all_data_append on_all_data_Cons)
qed

text \<open>
  The event \<open>done_content_chunk\<close> is well-formed and carries the content
  \<^verbatim>\<open>type [DONE] to finish\<close>; between the events of \<^verbatim>\<open>Hel\<close> and \<^verbatim>\<open>lo\<close> it leaves no trace.
\<close>

theorem done_chunk_dropped_witness:
  \<open>js_includes done_content_chunk (S ''[DONE]'')
   \<and> Option.bind (event_json done_content_chunk) deltaContent = Some (S ''type [DONE] to finish'')
   \<and> on_all_data sample_numbers
        ([S ''data: {"choices":[{"delta":{"content":"Hel"}}]}''] @ done_content_chunk
          # [S ''data: {"choices":[{"delta":{"content":"lo"}}]}''])
       = [JString (S ''Hel''), JString (S ''lo'')]\<close>
proof -
  have a: "js_includes done_content_chunk (S ''[DONE]'')"
    by (simp add: done_content_chunk_def S_def)
  have b: "Option.bind (event_json done_content_chunk) deltaContent
           = Some (S ''type [DONE] to finish'')"
    by (simp add: done_content_chunk_def event_json_def deltaContent_def run)
  have c: \<open>on_all_data sample_numbers
             ([S ''data: {"choices":[{"delta":{"content":"Hel"}}]}'']
              @ [S ''data: {"choices":[{"delta":{"content":"lo"}}]}''])
           = [JString (S ''Hel''), JString (S ''lo'')]\<close>
    by (simp add: run)
  show ?thesis
    using a b c done_chunk_dropped [OF a, of sample_numbers
        \<open>[S ''data: {"choices":[{"delta":{"content":"Hel"}}]}'']\<close>
        \<open>[S ''data: {"choices":[{"delta":{"content":"lo"}}]}'']\<close>]
    by simp
qed

text \<open>
  Claim C3, as stated, fails: after the malformed event not every well-formed event has its
  content accumulated. In the stream \<^verbatim>\<open>Hel\<close>, \<^verbatim>\<open>data: {not json\<close>, \<open>done_content_chunk\<close> the last
  event is well-formed and carries a content, and the completion's content is \<^verbatim>\<open>Hel\<close>: an
  event whose text contains \<^verbatim>\<open>[DONE]\<close> is dropped.
\<close>

theorem later_done_event_not_accumulated:
  \<open>startsWith malformed_chunk (S ''data: '')
   \<and> JSON_parse (payload malformed_chunk) = None
   \<and> Option.bind (event_json done_content_chunk) deltaContent = Some (S ''type [DONE] to finish'')
   \<and> completion_content
        (response (non_streaming done_after_malformed_env sample_request None JNull []))
       = Some (JString (S ''Hel''))\<close>
proof -
  have a: "startsWith malformed_chunk (S ''data: '')"
    by (simp add: malformed_chunk_def run)
  have b: "JSON_parse (payload malformed_chunk) = None"
    by (simp add: malformed_chunk_def run)
  have c: "Option.bind (event_json done_content_chunk) deltaContent
           = Some (S ''type [DONE] to finish'')"
    by (simp add: done_content_chunk_def event_json_def deltaContent_def run)
  have j: \<open>Array_join (numbers done_after_malformed_env)
             (on_all_data (numbers done_after_malformed_env)
                [S ''data: {"choices":[{"delta":{"content":"Hel"}}]}'', malformed_chunk,
                 done_content_chunk]) []
           = Inr (S ''Hel'')\<close>
    by (simp add: done_after_malformed_env_def sample_env_def malformed_chunk_def
        done_content_chunk_def run)
  have "response (non_streaming done_after_malformed_env sample_request None JNull [])
        = Json 200 []
            (fullResponse (randomUUID done_after_malformed_env) (Date_now done_after_malformed_env)
               None (S ''Hel''))"
    using j by (simp add: non_streaming_def done_after_malformed_env_def)
  then show ?thesis
    using a b c by (simp add: fullResponse_content)
qed

text \<open>
  Claim C3, amended. An event that starts with \<^verbatim>\<open>data: \<close> and whose payload is not valid JSON does
  not end the processing of the stream. When the stream of typed events ends, the handler
  answers 200 with a completion whose content is what the events before the malformed one
  add followed by what the events after it add, the malformed event adding nothing: every
  well-formed event after it whose text does not contain \<^verbatim>\<open>[DONE]\<close> has its content
  accumulated.
\<close>

theorem malformed_event_skipped:
  assumes "startsWith event (S ''data: '')"
    and "JSON_parse (payload event) = None"
    and "streamNotionResponse env notionRequestBody
         = Inr \<lparr>emitted = earlier @ event # later, outcome = Ends\<rparr>"
    and "\<forall>e\<in>set (earlier @ later). typed_event e"
  shows "status_code (response (non_streaming env req model notionRequestBody made)) = Some 200
       \<and> completion_content (response (non_streaming env req model notionRequestBody made))
           = Some (JString (concat (map kept_delta earlier) @ concat (map kept_delta later)))"
proof -
  have ej: "event_json event = None"
    using assms(1,2) by (simp add: event_json_def)
  then have k: "kept_delta event = []"
    by (simp add: kept_delta_def event_delta_def)
  have "typed_event event"
    using ej by (simp add: typed_event_def)
  with assms(4) have "\<forall>e\<in>set (earlier @ event # later). typed_event e"
    by auto
  then have "Array_join (numbers env) (on_all_data (numbers env) (earlier @ event # later)) []
             = Inr (concat (map kept_delta (earlier @ event # later)))"
    by (rule on_all_data_typed)
  then have "response (non_streaming env req model notionRequestBody made)
             = Json 200 []
                 (fullResponse (randomUUID env) (Date_now env) model
                    (concat (map kept_delta earlier) @ concat (map kept_delta later)))"
    using assms(3) k by (simp add: non_streaming_def)
  then show ?thesis
    by (simp add: fullResponse_content)
qed

text \<open>
  The stream \<^verbatim>\<open>Hel\<close>, \<^verbatim>\<open>data: {not json\<close>, \<^verbatim>\<open>lo\<close>: the completion's content is \<^verbatim>\<open>Hello\<close>.
\<close>

theorem malformed_event_skipped_witness:
  \<open>startsWith malformed_chunk (S ''data: '')
   \<and> JSON_parse (payload malformed_chunk) = None
   \<and> completion_content
        (response (non_streaming interleaved_env sample_request None JNull []))
       = Some (JString (S ''Hello''))\<close>
proof -
  have a: "startsWith malformed_chunk (S ''data: '')"
    by (simp add: malformed_chunk_def run)
  have b: "JSON_parse (payload malformed_chunk) = None"
    by (simp add: malformed_chunk_def run)
  have c: \<open>streamNotionResponse interleaved_env JNull
           = Inr \<lparr>emitted =
                      [S ''data: {"choices":[{"delta":{"content":"Hel"}}]}''] @ malformed_chunk
                      # [S ''data: {"choices":[{"delta":{"content":"lo"}}]}''],
                    outcome = Ends\<rparr>\<close>
    by (simp add: interleaved_env_def)
  have t: \<open>\<forall>e\<in>set ([S ''data: {"choices":[{"delta":{"content":"Hel"}}]}'']
                    @ [S ''data: {"choices":[{"delta":{"content":"lo"}}]}'']). typed_event e\<close>
    by (simp add: typed_event_def event_json_def typed_chunk_def run)
  have k: \<open>concat (map kept_delta [S ''data: {"choices":[{"delta":{"content":"Hel"}}]}''])
             @ concat (map kept_delta [S ''data: {"choices":[{"delta":{"content":"lo"}}]}''])
           = S ''Hello''\<close>
    by (simp add: kept_delta_def event_delta_def event_json_def deltaContent_def run)
  show ?thesis
    using a b malformed_event_skipped [OF a b c t, of sample_request None "[]"]
    unfolding k by simp
qed

text \<open>
  Claim C1, as stated, fails: the handler never reads a finish reason. For the stream whose
  event carries the finish reason \<^verbatim>\<open>length\<close> the completion says \<^verbatim>\<open>stop\<close>, where the last non-null
  finish reason observed is \<^verbatim>\<open>length\<close>.
\<close>

theorem finish_reason_not_observed:
  "completion_finish_reason (response (chat_completions length_env sample_request))
     = Some (JString (S ''stop''))
   \<and> spec_finishReason (emitted length_stream) = S ''length''"
proof -
  have m: "\<not> invalid_messages (numbers length_env) (member (S ''messages'') (body sample_request))"
    by (simp add: sample_members invalid_messages_def isArray_def)
  have s: "\<not> truthy (numbers length_env) (member (S ''stream'') (body sample_request))"
    by (simp add: sample_members)
  have a: "chat_completions length_env sample_request
      = non_streaming length_env sample_request (member (S ''model'') (body sample_request))
          (body sample_request) [GetValidCount, BuildNotionRequest (body sample_request)]"
    using reaches_branch [OF length_env_simps(1,2) sample_body m length_env_simps(3)] s
    by simp
  have o: "outcome length_stream = Ends"
    by (simp add: length_stream_def)
  have b: "spec_finishReason (emitted length_stream) = S ''length''"
    by (simp add: length_stream_def spec_finishReason_def List.map_filter_def event_json_def
        finishReason_def run)
  have j: "Array_join sample_numbers (on_all_data sample_numbers (emitted length_stream)) []
           = Inr (S ''Hi'')"
    by (simp add: length_stream_def run)
  show ?thesis
    unfolding a
    by (simp add: b o j non_streaming_def length_env_simps fullResponse_finish_reason)
qed

text \<open>
  Claim C1, amended. A non-streaming request that reaches the upstream, whose stream ends
  and holds only typed events: the handler answers once, with status 200 and a completion
  whose content is the concatenation, in emission order, of the \<open>deltaContent\<close> of every
  well-formed event whose text does not contain \<^verbatim>\<open>[DONE]\<close>, and whose finish reason is
  \<^verbatim>\<open>stop\<close>, whatever the stream held.
\<close>

theorem non_streaming_completion:
  assumes "INITIALIZED_SUCCESSFULLY env" and "getValidCount env \<noteq> 0"
    and "body req = JObject members"
    and "\<not> invalid_messages (numbers env) (member (S ''messages'') (body req))"
    and "\<not> truthy (numbers env) (member (S ''stream'') (body req))"
    and "buildNotionRequest env (body req) = Inr notionRequestBody"
    and "streamNotionResponse env notionRequestBody = Inr stream"
    and "outcome stream = Ends"
    and "\<forall>event\<in>set (emitted stream). typed_event event"
  shows "status_code (response (chat_completions env req)) = Some 200
       \<and> completion_content (response (chat_completions env req))
           = Some (JString (concat (map kept_delta (emitted stream))))
       \<and> completion_finish_reason (response (chat_completions env req))
           = Some (JString (S ''stop''))"
proof -
  have "chat_completions env req
        = non_streaming env req (member (S ''model'') (body req)) notionRequestBody
            [GetValidCount, BuildNotionRequest (body req)]"
    using reaches_branch [OF assms(1-4) assms(6)] assms(5) by simp
  then have r: "response (chat_completions env req)
        = Json 200 []
            (fullResponse (randomUUID env) (Date_now env) (member (S ''model'') (body req))
               (concat (map kept_delta (emitted stream))))"
    using assms(7,8) on_all_data_typed [OF assms(9), of "numbers env"]
    by (simp add: non_streaming_def)
  show ?thesis
    unfolding r
    by (simp only: fullResponse_content fullResponse_finish_reason status_code.simps simp_thms)
qed

text \<open>
  The stream of the specification's example, \<^verbatim>\<open>Hel\<close>, \<^verbatim>\<open>lo\<close>, \<^verbatim>\<open>[DONE]\<close>: the content is \<^verbatim>\<open>Hello\<close>
  and the finish reason \<^verbatim>\<open>stop\<close>, which is also the specification's aggregate of that stream.
\<close>

theorem non_streaming_completion_witness:
  "list_all typed_event (emitted hello_stream)
   \<and> completion_content (response (chat_completions sample_env sample_request))
       = Some (JString (S ''Hello''))
   \<and> completion_finish_reason (response (chat_completions sample_env sample_request))
       = Some (JString (S ''stop''))
   \<and> spec_content (emitted hello_stream) = S ''Hello''
   \<and> spec_finishReason (emitted hello_stream) = S ''stop''"
proof -
  have sc: "spec_content (emitted hello_stream) = S ''Hello''"
    by (simp add: hello_stream_def spec_content_def event_delta_def event_json_def
        deltaContent_def run)
  have sf: "spec_finishReason (emitted hello_stream) = S ''stop''"
    by (simp add: hello_stream_def spec_finishReason_def List.map_filter_def event_json_def
        finishReason_def run)
  have t: "\<forall>event\<in>set (emitted hello_stream). typed_event event"
    by (simp add: hello_stream_def typed_event_def event_json_def typed_chunk_def run)
  have k: "concat (map kept_delta (emitted hello_stream)) = S ''Hello''"
    by (simp add: hello_stream_def kept_delta_def event_delta_def event_json_def
        deltaContent_def run)
  have m: "\<not> invalid_messages (numbers sample_env) (member (S ''messages'') (body sample_request))"
    by (simp add: sample_members invalid_messages_def isArray_def)
  have s: "\<not> truthy (numbers sample_env) (member (S ''stream'') (body sample_request))"
    by (simp add: sample_members)
  have i: "INITIALIZED_SUCCESSFULLY sample_env" and v: "getValidCount sample_env \<noteq> 0"
    by (simp_all add: sample_env_def)
  have bd: "body sample_request
            = JObject
                [(S ''model'', JString (S ''anthropic-sonnet-4'')),
                 (S ''messages'',
                  JArray [JObject [(S ''role'', JString (S ''user'')),
                                   (S ''content'', JString (S ''Hi''))]])]"
    by (simp add: sample_request_def)
  have bn: "buildNotionRequest sample_env (body sample_request) = Inr (body sample_request)"
    by (simp add: sample_env_def)
  have st: "streamNotionResponse sample_env (body sample_request) = Inr hello_stream"
    by (simp add: sample_env_def)
  have o: "outcome hello_stream = Ends"
    by (simp add: hello_stream_def)
  note w = non_streaming_completion [OF i v bd m s bn st o t]
  show ?thesis
    using w t sc sf by (simp add: k list_all_iff)
qed

section \<open>Properties of the specification's translator\<close>



section \<open>Properties of the authentication\<close>



text \<open>
  Claim C9, as stated, fails: the second space-separated field of \<^verbatim>\<open>Basic default_token\<close> is
  the default secret, and the header is rejected, because it does not start with
  \<^verbatim>\<open>Bearer \<close>.
\<close>

theorem second_field_not_enough:
  "js_nth (split (S ''Basic default_token'') 32) 1 = Some (EXPECTED_TOKEN None)
   \<and> authenticate (EXPECTED_TOKEN None) (Some (S ''Basic default_token''))
       = Some (Json 401 []
           (error_body (S ''Authentication required. Please provide a valid Bearer token.'')
              (S ''authentication_error'')))"
  by (simp add: EXPECTED_TOKEN_def authenticate_def startsWith_def js_nth_def S_def)

text \<open>
  Claim C9, amended. With \<^verbatim>\<open>PROXY_AUTH_TOKEN\<close> unset or empty the secret is \<^verbatim>\<open>default_token\<close>. The
  middleware passes a request iff its header starts with \<^verbatim>\<open>Bearer \<close> and the header's second
  space-separated field equals the secret; with the default secret these are the header
  \<^verbatim>\<open>Bearer default_token\<close> and the headers that start with \<^verbatim>\<open>Bearer default_token \<close>.
\<close>

theorem token_check:
  "EXPECTED_TOKEN None = S ''default_token''
   \<and> EXPECTED_TOKEN (Some []) = S ''default_token''
   \<and> (authenticate expected header = None
        \<longleftrightarrow> (\<exists>h. header = Some h \<and> startsWith h (S ''Bearer '')
                 \<and> js_nth (split h 32) 1 = Some expected))
   \<and> (authenticate (EXPECTED_TOKEN None) header = None
        \<longleftrightarrow> (\<exists>h. header = Some h
                 \<and> (h = S ''Bearer default_token'' \<or> startsWith h (S ''Bearer default_token ''))))"
proof -
  have d: "EXPECTED_TOKEN None = S ''default_token''" "EXPECTED_TOKEN (Some []) = S ''default_token''"
    by (simp_all add: EXPECTED_TOKEN_def)
  have n: "32 \<notin> set (S ''default_token'')"
    by (simp add: S_def)
  have "(startsWith h (S ''Bearer '') \<and> js_nth (split h 32) 1 = Some (S ''default_token''))
        \<longleftrightarrow> (h = S ''Bearer default_token'' \<or> startsWith h (S ''Bearer default_token ''))" for h
  proof (cases "startsWith h (S ''Bearer '')")
    case False
    then have "\<not> startsWith h (S ''Bearer default_token '')"
      by (auto simp: startsWith_def prefix_def S_def)
    moreover have "h \<noteq> S ''Bearer default_token''"
      using False by (auto simp: startsWith_def S_def)
    ultimately show ?thesis using False by simp
  next
    case True
    then obtain t where h: "h = S ''Bearer '' @ t"
      by (auto simp: startsWith_def prefix_def)
    then have t: "drop 7 h = t" by (simp add: S_def)
    have "js_nth (split h 32) 1 = Some (S ''default_token'')
          \<longleftrightarrow> t = S ''default_token'' \<or> prefix (S ''default_token'' @ [32]) t"
      using second_field [OF True] takeWhile_field [OF n, of t] t
      by (simp add: bearer_token_def)
    also have "\<dots> \<longleftrightarrow> h = S ''Bearer default_token'' \<or> startsWith h (S ''Bearer default_token '')"
      unfolding h by (simp add: startsWith_def S_def)
    finally show ?thesis using True by simp
  qed
  then show ?thesis
    using d authenticate_passes [of expected header]
      authenticate_passes [of "S ''default_token''" header]
    by auto
qed

text \<open>
  \<^verbatim>\<open>Bearer default_token and more\<close> and \<^verbatim>\<open>Bearer default_token\<close> pass, \<^verbatim>\<open>Bearer default_tokens\<close>
  does not; with the variable empty \<^verbatim>\<open>Bearer default_token\<close> passes.
\<close>

theorem token_check_witness:
  "authenticate (EXPECTED_TOKEN (Some [])) (Some (S ''Bearer default_token'')) = None
   \<and> authenticate (EXPECTED_TOKEN None) (Some (S ''Bearer default_token and more'')) = None
   \<and> authenticate (EXPECTED_TOKEN None) (Some (S ''Bearer default_token'')) = None
   \<and> authenticate (EXPECTED_TOKEN None) (Some (S ''Bearer default_tokens'')) \<noteq> None"
proof -
  note t = token_check [THEN conjunct2, THEN conjunct2, THEN conjunct2]
  show ?thesis
    using t [of "Some (S ''Bearer default_token and more'')"]
      t [of "Some (S ''Bearer default_token'')"]
      t [of "Some (S ''Bearer default_tokens'')"]
      token_check [THEN conjunct1] token_check [THEN conjunct2, THEN conjunct1]
    by (simp add: startsWith_def S_def)
qed

section \<open>Properties of \<^verbatim>\<open>POST /v1/chat/completions\<close>\<close>

text \<open>
  Claim C4, as stated, fails: the handler checks the initialisation flag and the count of
  valid cookies before it looks at the body. A request without \<^verbatim>\<open>messages\<close> to a system that
  did not initialise is answered 500, not 400.
\<close>

theorem validation_after_initialisation_check:
  "member (S ''messages'') (body no_messages_request) = None
   \<and> handle uninitialized_env POST_v1_chat_completions no_messages_request
       = \<lparr>response = Json 500 [] (error_body msg_not_initialized (S ''server_error'')),
          calls = []\<rparr>"
  by (simp add: no_messages_request_def uninitialized_env_def sample_env_def sample_request_def
      handle_def authenticated_def authenticate_def EXPECTED_TOKEN_def route_handler_def
      chat_completions_def startsWith_def js_nth_def S_def)

text \<open>
  Claim C4, amended. When the system is initialised and the credential pool counts at
  least one valid cookie, a request whose \<^verbatim>\<open>messages\<close> field is absent, not an array or an
  empty array is answered 400 with an \<^verbatim>\<open>invalid_request_error\<close>; the count of valid cookies is
  the only call made: neither \<^verbatim>\<open>buildNotionRequest\<close> nor \<^verbatim>\<open>streamNotionResponse\<close>, behind which
  the pools select, is called. When the system is not initialised, or no valid cookie
  exists, every request is answered 500 before its body is looked at.
\<close>

theorem messages_validated:
  "(\<not> INITIALIZED_SUCCESSFULLY env \<longrightarrow>
      chat_completions env req
      = \<lparr>response = Json 500 [] (error_body msg_not_initialized (S ''server_error'')),
         calls = []\<rparr>)
   \<and> (INITIALIZED_SUCCESSFULLY env \<and> getValidCount env = 0 \<longrightarrow>
      chat_completions env req
      = \<lparr>response = Json 500 [] (error_body msg_no_cookies (S ''server_error'')),
         calls = [GetValidCount]\<rparr>)
   \<and> (INITIALIZED_SUCCESSFULLY env \<and> getValidCount env \<noteq> 0 \<and> body req \<noteq> JNull
       \<and> (member (S ''messages'') (body req) = None
            \<or> \<not> isArray (member (S ''messages'') (body req))
            \<or> member (S ''messages'') (body req) = Some (JArray [])) \<longrightarrow>
      chat_completions env req
      = \<lparr>response =
           Json 400 [] (error_body msg_invalid_messages (S ''invalid_request_error'')),
         calls = [GetValidCount]\<rparr>)"
proof -
  have "invalid_messages (numbers env) (member (S ''messages'') (body req))"
    if "member (S ''messages'') (body req) = None
         \<or> \<not> isArray (member (S ''messages'') (body req))
         \<or> member (S ''messages'') (body req) = Some (JArray [])"
    using that by (auto simp: invalid_messages_def isArray_def)
  then show ?thesis
    by (simp add: chat_completions_def Let_def get_prop_named)
qed

text \<open>
  The request without \<^verbatim>\<open>messages\<close> on the initialised sample environment, on the same
  environment without a valid cookie, and on the environment that did not initialise.
\<close>

theorem messages_validated_witness:
  "INITIALIZED_SUCCESSFULLY sample_env \<and> getValidCount sample_env \<noteq> 0
   \<and> member (S ''messages'') (body no_messages_request) = None
   \<and> handle sample_env POST_v1_chat_completions no_messages_request
       = \<lparr>response =
            Json 400 [] (error_body msg_invalid_messages (S ''invalid_request_error'')),
          calls = [GetValidCount]\<rparr>
   \<and> chat_completions (sample_env\<lparr>getValidCount := 0\<rparr>) no_messages_request
       = \<lparr>response = Json 500 [] (error_body msg_no_cookies (S ''server_error'')),
          calls = [GetValidCount]\<rparr>
   \<and> chat_completions uninitialized_env no_messages_request
       = \<lparr>response = Json 500 [] (error_body msg_not_initialized (S ''server_error'')),
          calls = []\<rparr>"
proof -
  have i: "INITIALIZED_SUCCESSFULLY sample_env" and v: "getValidCount sample_env \<noteq> 0"
    by (simp_all add: sample_env_def)
  have b: "body no_messages_request \<noteq> JNull"
    by (simp add: no_messages_request_def)
  have m: "member (S ''messages'') (body no_messages_request) = None"
    by (simp add: no_messages_request_def S_def)
  have a: "handle sample_env POST_v1_chat_completions no_messages_request
           = chat_completions sample_env no_messages_request"
    by (simp add: handle_def authenticated_def authenticate_def EXPECTED_TOKEN_def
        route_handler_def no_messages_request_def sample_request_def sample_env_def
        startsWith_def js_nth_def S_def)
  have z: "INITIALIZED_SUCCESSFULLY (sample_env\<lparr>getValidCount := 0\<rparr>)"
    "getValidCount (sample_env\<lparr>getValidCount := 0\<rparr>) = 0"
    by (simp_all add: sample_env_def)
  have u: "\<not> INITIALIZED_SUCCESSFULLY uninitialized_env"
    by (simp add: uninitialized_env_def)
  show ?thesis
    using i v m b z u messages_validated [of sample_env no_messages_request]
      messages_validated [of "sample_env\<lparr>getValidCount := 0\<rparr>" no_messages_request]
      messages_validated [of uninitialized_env no_messages_request]
    by (simp add: a)
qed

text \<open>
  Claim C5 fails on the streaming branch. A pool whose \<open>select()\<close> signals exhaustion makes
  \<^verbatim>\<open>streamNotionResponse\<close> reject, as the specification says, and the handler calls it once, with
  no second attempt. On the non-streaming branch the \<^verbatim>\<open>catch\<close> answers 500 with a
  \<^verbatim>\<open>server_error\<close> body. On the streaming branch the \<^verbatim>\<open>Content-Type\<close> header is already set to
  \<^verbatim>\<open>text-event-stream\<close> when the \<^verbatim>\<open>catch\<close> runs, \<^verbatim>\<open>res.json\<close> throws on it, and the client is sent
  nothing.
\<close>

theorem exhausted_pool_unanswered_when_streaming:
  assumes "INITIALIZED_SUCCESSFULLY env" and "getValidCount env \<noteq> 0"
    and "body req = JObject members"
    and "\<not> invalid_messages (numbers env) (member (S ''messages'') (body req))"
    and "buildNotionRequest env (body req) = Inr notionRequestBody"
    and "streamNotionResponse env = spec_streamNotionResponse credential route sendUpstreamRequest"
    and "credential = NoneAvailable \<or> route = NoneAvailable"
  shows "(if truthy (numbers env) (member (S ''stream'') (body req))
          then response (chat_completions env req) = NoResponse
          else (\<exists>msg. response (chat_completions env req)
                  = Json 500 [] (error_body msg (S ''server_error''))))
       \<and> calls (chat_completions env req)
           = [GetValidCount, BuildNotionRequest (body req), StreamNotionResponse notionRequestBody]"
proof -
  obtain name where e: "streamNotionResponse env notionRequestBody = Inl (Thrown name)"
    using spec_exhausted [OF assms(7)] assms(6) by auto
  show ?thesis
  proof (cases "truthy (numbers env) (member (S ''stream'') (body req))")
    case True
    then have "chat_completions env req
        = streaming env req notionRequestBody [GetValidCount, BuildNotionRequest (body req)]"
      using reaches_branch [OF assms(1-5)] by simp
    then show ?thesis
      using True e by (simp add: streaming_def caught_def text_event_stream_unanswered)
  next
    case False
    then have "chat_completions env req
        = non_streaming env req (member (S ''model'') (body req)) notionRequestBody
            [GetValidCount, BuildNotionRequest (body req)]"
      using reaches_branch [OF assms(1-5)] by simp
    then have "response (chat_completions env req)
          = Json 500 [] (error_body (S ''Internal server error: '' @ name) (S ''server_error''))"
      and "calls (chat_completions env req)
          = [GetValidCount, BuildNotionRequest (body req), StreamNotionResponse notionRequestBody]"
      using e by (simp_all add: non_streaming_def caught_def plain_json_answered)
    then show ?thesis
      using False by auto
  qed
qed

text \<open>
  The egress pool without a route: the sample request with \<^verbatim>\<open>stream: true\<close> is sent nothing,
  the sample request is answered 500; without a valid cookie also the streaming request is
  answered 500.
\<close>

theorem exhausted_pool_unanswered_when_streaming_witness:
  "truthy (numbers egress_exhausted_env) (member (S ''stream'') (body streaming_request))
   \<and> response (chat_completions egress_exhausted_env streaming_request) = NoResponse
   \<and> calls (chat_completions egress_exhausted_env streaming_request)
       = [GetValidCount, BuildNotionRequest (body streaming_request),
          StreamNotionResponse (body streaming_request)]
   \<and> \<not> truthy (numbers egress_exhausted_env) (member (S ''stream'') (body sample_request))
   \<and> (\<exists>msg. response (chat_completions egress_exhausted_env sample_request)
         = Json 500 [] (error_body msg (S ''server_error'')))
   \<and> response (chat_completions (sample_env\<lparr>getValidCount := 0\<rparr>) streaming_request)
       = Json 500 [] (error_body msg_no_cookies (S ''server_error''))"
proof -
  have e: "INITIALIZED_SUCCESSFULLY egress_exhausted_env" "getValidCount egress_exhausted_env \<noteq> 0"
    "buildNotionRequest egress_exhausted_env b = Inr b"
    "numbers egress_exhausted_env = sample_numbers"
    "streamNotionResponse egress_exhausted_env
       = spec_streamNotionResponse (Selected (S ''cookie-1'')) NoneAvailable
           (\<lambda>credential route b. Inr hello_stream)" for b
    by (simp_all add: egress_exhausted_env_def sample_env_def)
  have x: "Selected (S ''cookie-1'') = NoneAvailable
           \<or> (NoneAvailable :: jsstring selection) = NoneAvailable"
    by simp
  have m: "\<not> invalid_messages (numbers egress_exhausted_env)
             (member (S ''messages'') (body streaming_request))"
    by (simp add: streaming_members invalid_messages_def isArray_def)
  have t: "truthy (numbers egress_exhausted_env) (member (S ''stream'') (body streaming_request))"
    by (simp add: streaming_members)
  have m': "\<not> invalid_messages (numbers egress_exhausted_env)
             (member (S ''messages'') (body sample_request))"
    by (simp add: sample_members invalid_messages_def isArray_def)
  have s: "\<not> truthy (numbers egress_exhausted_env) (member (S ''stream'') (body sample_request))"
    by (simp add: sample_members)
  have z: "response (chat_completions (sample_env\<lparr>getValidCount := 0\<rparr>) streaming_request)
       = Json 500 [] (error_body msg_no_cookies (S ''server_error''))"
    by (simp add: chat_completions_def sample_env_def)
  show ?thesis
    using exhausted_pool_unanswered_when_streaming [OF e(1,2) streaming_body m e(3) e(5) x]
      exhausted_pool_unanswered_when_streaming [OF e(1,2) sample_body m' e(3) e(5) x]
      t s z
    by simp
qed

text \<open>
  Claim C6, on the non-streaming branch: the handler registers no listener for the
  client's disconnect there, so whenever the client disconnects the calls made are the
  same three and \<^verbatim>\<open>stream.end()\<close> is not among them.
\<close>

theorem non_streaming_ignores_disconnect:
  assumes "INITIALIZED_SUCCESSFULLY env" and "getValidCount env \<noteq> 0"
    and "body req = JObject members"
    and "\<not> invalid_messages (numbers env) (member (S ''messages'') (body req))"
    and "buildNotionRequest env (body req) = Inr notionRequestBody"
    and "\<not> truthy (numbers env) (member (S ''stream'') (body req))"
  shows "calls (chat_completions env req)
           = [GetValidCount, BuildNotionRequest (body req), StreamNotionResponse notionRequestBody]
       \<and> StreamEnd \<notin> set (calls (chat_completions env req))"
proof -
  have "chat_completions env req
        = non_streaming env req (member (S ''model'') (body req)) notionRequestBody
            [GetValidCount, BuildNotionRequest (body req)]"
    using reaches_branch [OF assms(1-5)] assms(6) by simp
  then show ?thesis
    by (simp add: non_streaming_def split: sum.splits)
qed

text \<open>
  A client that disconnects after the first chunk: on the non-streaming branch no listener
  is registered on \<^verbatim>\<open>req\<close> and \<^verbatim>\<open>stream.end()\<close> is not called; on the streaming branch the listener
  is registered.
\<close>

theorem non_streaming_ignores_disconnect_witness:
  "close_after disconnecting_request = Some 1
   \<and> StreamEnd \<notin> set (calls (chat_completions sample_env disconnecting_request))
   \<and> ReqOnClose \<notin> set (calls (chat_completions sample_env disconnecting_request))
   \<and> ReqOnClose \<in> set (calls (chat_completions sample_env disconnecting_streaming_request))"
proof -
  have b: "body disconnecting_request = body sample_request"
    "body disconnecting_streaming_request = body streaming_request"
    by (simp_all add: disconnecting_request_def disconnecting_streaming_request_def)
  have m: "\<not> invalid_messages (numbers sample_env)
             (member (S ''messages'') (body disconnecting_request))"
    by (simp add: b sample_members invalid_messages_def isArray_def)
  have s: "\<not> truthy (numbers sample_env) (member (S ''stream'') (body disconnecting_request))"
    by (simp add: b sample_members)
  have m': "\<not> invalid_messages (numbers sample_env)
             (member (S ''messages'') (body disconnecting_streaming_request))"
    by (simp add: b streaming_members invalid_messages_def isArray_def)
  have t: "truthy (numbers sample_env) (member (S ''stream'') (body disconnecting_streaming_request))"
    by (simp add: b streaming_members)
  have r: "chat_completions sample_env disconnecting_streaming_request
           = streaming sample_env disconnecting_streaming_request (body streaming_request)
               [GetValidCount, BuildNotionRequest (body streaming_request)]"
    using reaches_branch [of sample_env disconnecting_streaming_request _ "body streaming_request",
        OF sample_env_simps(1,2) _ m'] t streaming_body sample_env_simps(3) [of "body streaming_request"]
    by (simp add: b)
  have c: "close_after disconnecting_request = Some 1"
    "close_after disconnecting_streaming_request = Some 1"
    by (simp_all add: disconnecting_request_def disconnecting_streaming_request_def)
  have e: "ReqOnClose \<in> set (calls (chat_completions sample_env disconnecting_streaming_request))"
    unfolding r by (simp add: streaming_def sample_env_simps c)
  show ?thesis
    using c(1) e non_streaming_ignores_disconnect [of sample_env disconnecting_request _
        "body sample_request", OF sample_env_simps(1,2) _ m _ s]
      sample_body sample_env_simps(3) [of "body sample_request"]
    by (simp add: b)
qed

text \<open>
  Claim C10, as stated, fails: a request with \<^verbatim>\<open>stream: true\<close> that is answered before the
  streaming branch is reached has no \<^verbatim>\<open>Content-Type\<close> header set by the handler. On a system
  that did not initialise the answer is the 500 of the first check.
\<close>

theorem no_content_type_before_streaming:
  "truthy (numbers uninitialized_env) (member (S ''stream'') (body streaming_request))
   \<and> response (chat_completions uninitialized_env streaming_request)
       = Json 500 [] (error_body msg_not_initialized (S ''server_error''))
   \<and> map_of (headers_set (response (chat_completions uninitialized_env streaming_request)))
        (S ''Content-Type'') = None"
  by (simp add: streaming_members chat_completions_def uninitialized_env_def sample_env_def)

text \<open>
  Claim C10, amended. A request with a truthy \<^verbatim>\<open>stream\<close> that passes the checks of
  initialisation, valid cookies and \<^verbatim>\<open>messages\<close>, whose Notion request is built and whose
  upstream stream is obtained, has its \<^verbatim>\<open>Content-Type\<close> header set to \<^verbatim>\<open>text-event-stream\<close>, which is
  not the media type \<^verbatim>\<open>text/event-stream\<close>.
\<close>

theorem stream_content_type:
  assumes "INITIALIZED_SUCCESSFULLY env" and "getValidCount env \<noteq> 0"
    and "body req = JObject members"
    and "\<not> invalid_messages (numbers env) (member (S ''messages'') (body req))"
    and "buildNotionRequest env (body req) = Inr notionRequestBody"
    and "truthy (numbers env) (member (S ''stream'') (body req))"
    and "streamNotionResponse env notionRequestBody = Inr stream"
  shows "map_of (headers_set (response (chat_completions env req))) (S ''Content-Type'')
           = Some (S ''text-event-stream'')
       \<and> map_of (headers_set (response (chat_completions env req))) (S ''Content-Type'')
           \<noteq> Some (S ''text/event-stream'')"
proof -
  have "chat_completions env req
        = streaming env req notionRequestBody [GetValidCount, BuildNotionRequest (body req)]"
    using reaches_branch [OF assms(1-5)] assms(6) by simp
  then have "headers_set (response (chat_completions env req)) = stream_headers"
    using assms(7) by (simp add: streaming_def split: option.splits)
  then show ?thesis
    by (simp add: stream_headers_def S_def)
qed

text \<open>
  The sample request with \<^verbatim>\<open>stream: true\<close>: the three headers and the piped chunks.
\<close>

theorem stream_content_type_witness:
  "truthy (numbers sample_env) (member (S ''stream'') (body streaming_request))
   \<and> response (chat_completions sample_env streaming_request)
       = Piped [(S ''Content-Type'', S ''text-event-stream''),
                (S ''Cache-Control'', S ''no-cache''),
                (S ''Connection'', S ''keep-alive'')]
           (emitted hello_stream) True
   \<and> map_of (headers_set (response (chat_completions sample_env streaming_request)))
        (S ''Content-Type'') = Some (S ''text-event-stream'')"
proof -
  have m: "\<not> invalid_messages (numbers sample_env)
             (member (S ''messages'') (body streaming_request))"
    by (simp add: streaming_members invalid_messages_def isArray_def)
  have t: "truthy (numbers sample_env) (member (S ''stream'') (body streaming_request))"
    by (simp add: streaming_members)
  have r: "chat_completions sample_env streaming_request
           = streaming sample_env streaming_request (body streaming_request)
               [GetValidCount, BuildNotionRequest (body streaming_request)]"
    using reaches_branch [OF sample_env_simps(1,2) streaming_body m sample_env_simps(3)] t
    by simp
  have p: "response (chat_completions sample_env streaming_request)
           = Piped stream_headers (emitted hello_stream) True"
    unfolding r
    by (simp add: streaming_def sample_env_simps streaming_request_def hello_stream_def)
  show ?thesis
    using t p stream_content_type [OF sample_env_simps(1,2) streaming_body m sample_env_simps(3) t
        sample_env_simps(4)]
    by (simp add: stream_headers_def)
qed

end
